theory Spec2Isabelle
  imports Complex_Main "HOL-Library.Signed_Division"
begin

section \<open>The Torch dialect as the conversion rules see it\<close>

text \<open>
  The rules of \<^verbatim>\<open>lib/Conversion/TorchOnnxToTorch/ComMicrosoftDomain.cpp\<close> read an
  operator record through an \<^verbatim>\<open>OpBinder\<close> and emit Torch operations through a
  \<^verbatim>\<open>ConversionPatternRewriter\<close>. Types, values and operations are modelled as plain
  data; the rewriter is a state that is passed through every \<^verbatim>\<open>create\<close>.
\<close>

datatype signedness = Signless | Signed | Unsigned

datatype dtype = F32Type | IntegerType nat signedness | OtherDtype string

datatype ty =
    ValueTensorType "int list option" "dtype option"
  | IntType
  | FloatType
  | BoolType
  | NoneType
  | ListType ty
  | OtherType string

text \<open>\<^verbatim>\<open>Torch::kUnknownSize\<close>: the size of a dimension that is not statically known.\<close>

definition kUnknownSize :: int where
  "kUnknownSize = -1"

text \<open>
  An SSA value carries its type. \<open>Arg\<close> is a value that exists before the rule runs (an
  operand of the matched operation); \<open>Res n\<close> is the result of the \<open>n\<close>-th operation the
  rewriter created.
\<close>

datatype Value = Arg nat ty | Res nat ty

fun getType :: "Value \<Rightarrow> ty" where
  "getType (Arg _ t) = t"
| "getType (Res _ t) = t"

datatype attr = IntegerAttr int | FloatAttr real | StringAttr string | OtherAttr string

datatype opkind =
    ConstantIntOp int
  | ConstantFloatOp real
  | ConstantBoolOp bool
  | ConstantNoneOp
  | PrimListConstructOp
  | AtenReshapeOp
  | AtenItemOp
  | AtenGtIntOp
  | AtenNeIntOp
  | Aten__And__BoolOp
  | AtenZerosOp
  | AtenToDtypeOp
  | AtenAddScalarOp
  | AtenSubScalarOp
  | AtenArangeOp
  | AtenRepeatOp
  | AtenViewOp
  | AtenAddTensorOp
  | AtenLtTensorOp
  | AtenTensorOp
  | AtenWhereSelfOp
  | AtenIntBoolOp
  | AtenFullOp
  | OnnxVariantRotaryEmbeddingOp
  | AtenScaledDotProductAttentionOp
  | AtenCatOp
  | AtenMatmulOp
  | AtenMulTensorOp
  | AtenLeakyReluOp
  | AtenSigmoidOp
  | AtenSizeIntOp
  | AtenAvgPool1dOp
  | AtenAvgPool2dOp
  | AtenAvgPool3dOp
  | AtenQuantizePerTensorOp
  | AtenIntReprOp
  | OperatorOp "(string \<times> attr) list" nat
  | OtherOp string

record operation =
  kind :: opkind
  args :: "Value list"
  resTy :: ty

text \<open>
  The operator record a rule is invoked on (\<^verbatim>\<open>binder.op\<close>): ordered operands, the attribute
  dictionary in its order, the declared result types and the number of regions.
\<close>

record source_op =
  opOperands :: "Value list"
  opAttrs :: "(string \<times> attr) list"
  opResultTypes :: "ty list"
  opNumRegions :: nat

subsection \<open>The rewriter\<close>

text \<open>
  The rewriter's mutation surface is \<^verbatim>\<open>create\<close> (append an operation) and
  \<^verbatim>\<open>replaceOp\<close> (replace the matched operation by values).
\<close>

record rewriter =
  created :: "operation list"
  replacement :: "Value list option"

definition create :: "opkind \<Rightarrow> Value list \<Rightarrow> ty \<Rightarrow> rewriter \<Rightarrow> Value \<times> rewriter" where
  "create k vs t rw =
     (Res (length (created rw)) t,
      rw\<lparr>created := created rw @ [\<lparr>kind = k, args = vs, resTy = t\<rparr>]\<rparr>)"

definition replaceOp :: "Value list \<Rightarrow> rewriter \<Rightarrow> rewriter" where
  "replaceOp vs rw = rw\<lparr>replacement := Some vs\<rparr>"

definition replaceOpWithNewOp :: "opkind \<Rightarrow> Value list \<Rightarrow> ty \<Rightarrow> rewriter \<Rightarrow> rewriter" where
  "replaceOpWithNewOp k vs t rw = (let (v, rw) = create k vs t rw in replaceOp [v] rw)"

text \<open>
  What a rule returns. \<open>Failure (Some msg)\<close> is \<^verbatim>\<open>notifyMatchFailure(op, msg)\<close>,
  \<open>Failure None\<close> is a bare \<^verbatim>\<open>failure()\<close>. \<open>Crash\<close> stands for the places where the
  C++ leaves defined behaviour: an index past the end of a \<^verbatim>\<open>SmallVector\<close> or
  \<^verbatim>\<open>ArrayRef\<close> (an assertion in LLVM's containers), \<^verbatim>\<open>getSizes()\<close> of a tensor type
  without sizes, or a member call on a null type.
\<close>

datatype LogicalResult = Success | Failure "string option" | Crash

definition notifyMatchFailure :: "string \<Rightarrow> rewriter \<Rightarrow> LogicalResult \<times> rewriter" where
  "notifyMatchFailure msg rw = (Failure (Some msg), rw)"

definition failure :: "rewriter \<Rightarrow> LogicalResult \<times> rewriter" where
  "failure rw = (Failure None, rw)"

definition definingOp :: "rewriter \<Rightarrow> Value \<Rightarrow> operation option" where
  "definingOp rw v =
     (case v of
        Arg _ _ \<Rightarrow> None
      | Res n _ \<Rightarrow> (if n < length (created rw) then Some (created rw ! n) else None))"

subsection \<open>The binder\<close>

text \<open>
  Modelled from the spec: the \<^verbatim>\<open>OpBinder\<close> accessors (declared in
  \<^verbatim>\<open>Patterns.h\<close>, which is not among the sources). The spec's operator record is an
  ordered operand list, a named-attribute mapping and the declared result types; an
  accessor fails when the record does not have the requested form, and an attribute
  accessor yields its default when the attribute is absent (the spec's numeric attribute
  defaults; \<open>0\<close> where the call passes none, as for \<^verbatim>\<open>smooth_softmax\<close>).
\<close>

definition isValueTensor :: "ty \<Rightarrow> bool" where
  "isValueTensor t = (case t of ValueTensorType _ _ \<Rightarrow> True | _ \<Rightarrow> False)"

definition tensorOperandsList :: "source_op \<Rightarrow> Value list option" where
  "tensorOperandsList op =
     (if list_all (\<lambda>v. isValueTensor (getType v)) (opOperands op)
      then Some (opOperands op) else None)"

definition tensorOperands :: "source_op \<Rightarrow> nat \<Rightarrow> Value list option" where
  "tensorOperands op n =
     (if length (opOperands op) = n then tensorOperandsList op else None)"


definition tensorResultTypes :: "source_op \<Rightarrow> ty list option" where
  "tensorResultTypes op =
     (if list_all isValueTensor (opResultTypes op) then Some (opResultTypes op) else None)"

definition tensorResultType :: "source_op \<Rightarrow> ty option" where
  "tensorResultType op =
     (case opResultTypes op of
        [t] \<Rightarrow> (if isValueTensor t then Some t else None)
      | _ \<Rightarrow> None)"

definition s64IntegerAttr :: "source_op \<Rightarrow> string \<Rightarrow> int \<Rightarrow> int option" where
  "s64IntegerAttr op nameSuffix defaultValue =
     (case map_of (opAttrs op) (''torch.onnx.'' @ nameSuffix) of
        None \<Rightarrow> Some defaultValue
      | Some (IntegerAttr i) \<Rightarrow> Some i
      | Some _ \<Rightarrow> None)"

definition f32FloatAttr :: "source_op \<Rightarrow> string \<Rightarrow> real \<Rightarrow> real option" where
  "f32FloatAttr op nameSuffix defaultValue =
     (case map_of (opAttrs op) (''torch.onnx.'' @ nameSuffix) of
        None \<Rightarrow> Some defaultValue
      | Some (FloatAttr x) \<Rightarrow> Some x
      | Some _ \<Rightarrow> None)"

subsection \<open>Helpers of the conversion library\<close>

text \<open>
  The rules call helpers of \<^verbatim>\<open>Utils.cpp\<close>, which is not among the sources. They are
  parameters of the model. A helper sees the rewriter as a builder: told the index of the
  next operation, it returns its result (\<open>None\<close> when it fails) and the operations it
  appends.
\<close>

type_synonym 'a helper = "nat \<Rightarrow> 'a option \<times> operation list"

definition call :: "'a helper \<Rightarrow> rewriter \<Rightarrow> 'a option \<times> rewriter" where
  "call h rw =
     (case h (length (created rw)) of
        (r, ops) \<Rightarrow> (r, rw\<lparr>created := created rw @ ops\<rparr>))"

record utils =
  createTorchTransposeOp :: "Value \<Rightarrow> int \<Rightarrow> int \<Rightarrow> Value helper"
  extractPerTensorQuantizationArguments :: "Value \<Rightarrow> Value \<Rightarrow> (Value \<times> Value) helper"
  createDequantizeTensor :: "Value \<Rightarrow> Value \<Rightarrow> Value \<Rightarrow> Value helper"
  getQTorchTypeFromTorchIntType :: "ty \<Rightarrow> ty option"
  getScalarTypeForType :: "dtype option \<Rightarrow> int"

text \<open>\<^verbatim>\<open>Torch::getTensorRank\<close>: the rank of a tensor value whose type has sizes.\<close>

definition getTensorRank :: "Value \<Rightarrow> nat option" where
  "getTensorRank v =
     (case getType v of
        ValueTensorType (Some sizes) _ \<Rightarrow> Some (length sizes)
      | _ \<Rightarrow> None)"

text \<open>
  A value of C++ type \<^verbatim>\<open>unsigned\<close> (32 bits) passed where an \<^verbatim>\<open>int64_t\<close> is expected:
  the arithmetic wraps modulo \<open>2 ^ 32\<close> first.
\<close>

definition unsigned32 :: "int \<Rightarrow> int" where
  "unsigned32 i = i mod 2 ^ 32"

section \<open>FusedMatMul\<close>

definition FusedMatMul :: "utils \<Rightarrow> source_op \<Rightarrow> rewriter \<Rightarrow> LogicalResult \<times> rewriter" where
  "FusedMatMul u op rw =
     (case (tensorOperands op 2,
            s64IntegerAttr op ''transA'' 0, s64IntegerAttr op ''transB'' 0,
            s64IntegerAttr op ''transBatchA'' 0, s64IntegerAttr op ''transBatchB'' 0,
            tensorResultType op) of
        (Some [lhs, rhs], Some transA, Some transB, Some transBatchA, Some transBatchB,
         Some resultType) \<Rightarrow>
          (case (if transA \<noteq> 0
                 then (case getTensorRank lhs of
                         None \<Rightarrow> (Inl ''Unimplemented: unranked lhs tensor'', rw)
                       | Some lhsRank \<Rightarrow>
                           (case call (createTorchTransposeOp u lhs
                                         (unsigned32 (int lhsRank - 2))
                                         (unsigned32 (int lhsRank - 1))) rw of
                              (None, rw) \<Rightarrow>
                                (Inl ''Failed to create TorchTranspose op for lhs'', rw)
                            | (Some transposed, rw) \<Rightarrow> (Inr transposed, rw)))
                 else (Inr lhs, rw)) of
             (Inl msg, rw) \<Rightarrow> notifyMatchFailure msg rw
           | (Inr transposedLhs, rw) \<Rightarrow>
               (case (if transB \<noteq> 0
                      then (case getTensorRank rhs of
                              None \<Rightarrow> (Inl ''Unimplemented: unranked rhs tensor'', rw)
                            | Some rhsRank \<Rightarrow>
                                (case call (createTorchTransposeOp u rhs
                                              (unsigned32 (int rhsRank - 2))
                                              (unsigned32 (int rhsRank - 1))) rw of
                                   (None, rw) \<Rightarrow>
                                     (Inl ''Failed to create TorchTranspose op for rhs'', rw)
                                 | (Some transposed, rw) \<Rightarrow> (Inr transposed, rw)))
                      else (Inr rhs, rw)) of
                  (Inl msg, rw) \<Rightarrow> notifyMatchFailure msg rw
                | (Inr transposedRhs, rw) \<Rightarrow>
                    (if transBatchA \<noteq> 0 \<or> transBatchB \<noteq> 0
                     then notifyMatchFailure
                            (''Unimplemented: support not present for '' @
                             ''transBatchA and transBatchB attribute'') rw
                     else (Success,
                           replaceOpWithNewOp AtenMatmulOp [transposedLhs, transposedRhs]
                             resultType rw))))
      | _ \<Rightarrow> failure rw)"

text \<open>
  Accessors of \<^verbatim>\<open>Torch::ValueTensorType\<close>. The rules apply them to operand and result
  types that the binder has already checked to be value tensor types.
\<close>

fun getOptionalSizes :: "ty \<Rightarrow> int list option" where
  "getOptionalSizes (ValueTensorType sizes _) = sizes"
| "getOptionalSizes _ = None"

fun getOptionalDtype :: "ty \<Rightarrow> dtype option" where
  "getOptionalDtype (ValueTensorType _ d) = d"
| "getOptionalDtype _ = None"

definition hasSizes :: "ty \<Rightarrow> bool" where
  "hasSizes t = (getOptionalSizes t \<noteq> None)"

definition areAllSizesKnown :: "ty \<Rightarrow> bool" where
  "areAllSizesKnown t =
     (case getOptionalSizes t of
        None \<Rightarrow> False
      | Some sizes \<Rightarrow> list_all (\<lambda>d. d \<noteq> kUnknownSize) sizes)"

text \<open>
  \<^verbatim>\<open>torch_upstream::ScalarType\<close>: the two members the rules name, with the numbers of
  PyTorch's enumeration.
\<close>

definition ScalarType_Long :: int where
  "ScalarType_Long = 4"

definition ScalarType_Bool :: int where
  "ScalarType_Bool = 11"

section \<open>RotaryEmbedding\<close>


section \<open>GroupQueryAttention\<close>

text \<open>
  The block \<^verbatim>\<open>if (doRotary) { ... }\<close> of lines 228-390, which computes the position
  indices and applies the rotary embedding to query and key. It runs in the scope of the
  rule: the operands, the sizes of the query and the constants created before it are its
  parameters (\<^verbatim>\<open>cosCache\<close> and \<^verbatim>\<open>sinCache\<close> are bound at line 145 under the same
  condition). The constant named \<^verbatim>\<open>cstIntMinusOne\<close> is created with the value \<open>1\<close>
  (line 321).
\<close>

definition gqaRotaryEmbedding ::
  "Value list \<Rightarrow> int \<Rightarrow> int \<Rightarrow> int \<Rightarrow> Value \<Rightarrow> Value \<Rightarrow> Value \<Rightarrow> Value \<Rightarrow> Value \<Rightarrow> Value \<Rightarrow>
   rewriter \<Rightarrow> Value \<times> Value \<times> rewriter" where
  "gqaRotaryEmbedding operands batchSize sequenceLength rotaryInterleaved
     cstBatchSize cstSequenceLength cstNone cstFalse qInput kInput rw =
    (let seqlensK = operands ! 5;
         totalSequenceLength = operands ! 6;
         cosCache = operands ! 7;
         sinCache = operands ! 8;
         (scalarTotalSeqLens, rw) =
            create AtenItemOp [totalSequenceLength] IntType rw;
         (cstIntOne, rw) = create (ConstantIntOp 1) [] IntType rw;
         (condA, rw) =
            create AtenGtIntOp [cstSequenceLength, cstIntOne] BoolType rw;
         (condB, rw) =
            create AtenNeIntOp [cstSequenceLength, scalarTotalSeqLens] BoolType rw;
         (isSubsequentPrompt, rw) =
            create Aten__And__BoolOp [condA, condB] BoolType rw;
         positionIdsSizeInt = [batchSize, sequenceLength];
         positionIdsType =
            ValueTensorType (Some positionIdsSizeInt) (Some (IntegerType 64 Signed));
         (cstInt64Dtype, rw) = create (ConstantIntOp ScalarType_Long) [] IntType rw;
         (cstInterleaved, rw) =
            create (ConstantIntOp rotaryInterleaved) [] IntType rw;
         (cstIntZero, rw) = create (ConstantIntOp 0) [] IntType rw;
         (cstFloatOne, rw) = create (ConstantFloatOp 1) [] FloatType rw;
         (posIdsSizeList, rw) =
            create PrimListConstructOp [cstBatchSize, cstSequenceLength]
              (ListType IntType) rw;
         (positionIdsA, rw) =
            create AtenZerosOp
              [posIdsSizeList, cstInt64Dtype, cstNone, cstNone, cstNone]
              positionIdsType rw;
         (seqlensK, rw) =
            create AtenToDtypeOp
              [seqlensK, cstInt64Dtype, cstFalse, cstFalse, cstNone]
              (ValueTensorType None (Some (IntegerType 64 Signed))) rw;
         (totalSeqLens, rw) =
            create AtenAddScalarOp [seqlensK, cstIntOne, cstIntOne]
              (getType seqlensK) rw;
         (pastSeqLens, rw) =
            create AtenSubScalarOp [totalSeqLens, cstSequenceLength, cstIntOne]
              (getType totalSeqLens) rw;
         initPosIdsType =
            ValueTensorType (Some [sequenceLength]) (Some (IntegerType 64 Signed));
         (initPosIds, rw) =
            create AtenArangeOp
              [cstSequenceLength, cstInt64Dtype, cstNone, cstNone, cstNone]
              initPosIdsType rw;
         (repeatValuesList, rw) =
            create PrimListConstructOp [cstBatchSize, cstIntOne]
              (ListType IntType) rw;
         (positionIdsB, rw) =
            create AtenRepeatOp [initPosIds, repeatValuesList] positionIdsType rw;
         (cstIntMinusOne, rw) = create (ConstantIntOp 1) [] IntType rw;
         (viewSizeList, rw) =
            create PrimListConstructOp [cstIntMinusOne, cstIntOne]
              (ListType IntType) rw;
         seqLensViewType =
            ValueTensorType (Some [batchSize, 1]) (Some (IntegerType 64 Signed));
         (pastSeqLens, rw) =
            create AtenViewOp [pastSeqLens, viewSizeList] seqLensViewType rw;
         (positionIdsB, rw) =
            create AtenAddTensorOp [positionIdsB, pastSeqLens, cstIntOne]
              positionIdsType rw;
         (totalSeqLens, rw) =
            create AtenViewOp [totalSeqLens, viewSizeList] seqLensViewType rw;
         (cond, rw) =
            create AtenLtTensorOp [positionIdsB, totalSeqLens]
              (ValueTensorType (getOptionalSizes positionIdsType)
                 (Some (IntegerType 1 Signless))) rw;
         (cstOneTensorDataList, rw) =
            create PrimListConstructOp [cstIntOne] (ListType IntType) rw;
         (cstOneTensor, rw) =
            create AtenTensorOp
              [cstOneTensorDataList, cstInt64Dtype, cstNone, cstFalse]
              (ValueTensorType None (Some (IntegerType 64 Signed))) rw;
         (positionIdsB, rw) =
            create AtenWhereSelfOp [cond, positionIdsB, cstOneTensor]
              positionIdsType rw;
         (isSubsequentPrompt, rw) =
            create AtenIntBoolOp [isSubsequentPrompt] IntType rw;
         (cstBoolDtype, rw) = create (ConstantIntOp ScalarType_Bool) [] IntType rw;
         (isSubsequentPrompt, rw) =
            create AtenFullOp
              [posIdsSizeList, isSubsequentPrompt, cstBoolDtype,
               cstNone, cstNone, cstNone]
              (ValueTensorType (Some positionIdsSizeInt)
                 (Some (IntegerType 1 Signless))) rw;
         (positionIds, rw) =
            create AtenWhereSelfOp [isSubsequentPrompt, positionIdsB, positionIdsA]
              positionIdsType rw;
         (qRotary, rw) =
            create OnnxVariantRotaryEmbeddingOp
              [qInput, positionIds, cosCache, sinCache, cstInterleaved,
               cstIntZero, cstIntZero, cstIntZero, cstFloatOne]
              (getType qInput) rw;
         (kRotary, rw) =
            create OnnxVariantRotaryEmbeddingOp
              [kInput, positionIds, cosCache, sinCache, cstInterleaved,
               cstIntZero, cstIntZero, cstIntZero, cstFloatOne]
              (getType qInput) rw
     in (qRotary, kRotary, rw))"

text \<open>
  The construction of lines 157-456, which the rule reaches once every check has passed:
  its parameters are the bound operands, result types and attributes and the first three
  sizes of the query. \<^verbatim>\<open>hiddenSize / numHeads\<close> is a division of \<^verbatim>\<open>int64_t\<close> values,
  which truncates towards zero (\<open>sdiv\<close>).
\<close>

definition gqaRewrite ::
  "Value list \<Rightarrow> ty list \<Rightarrow> int \<Rightarrow> int \<Rightarrow> int \<Rightarrow> int \<Rightarrow> real \<Rightarrow> int \<Rightarrow> int \<Rightarrow> int \<Rightarrow>
   rewriter \<Rightarrow> LogicalResult \<times> rewriter" where
  "gqaRewrite operands resultTypes doRotary kvNumHeads numHeads rotaryInterleaved scale
     batchSize sequenceLength hiddenSize rw =
  (let query = operands ! 0;
      key = operands ! 1;
      value = operands ! 2;
      pastKey = operands ! 3;
      pastValue = operands ! 4;
      queryType = getType query;
      headSize = hiddenSize sdiv numHeads;
      (cstBatchSize, rw) = create (ConstantIntOp batchSize) [] IntType rw;
      (cstSequenceLength, rw) = create (ConstantIntOp sequenceLength) [] IntType rw;
      (cstHiddenSize, rw) = create (ConstantIntOp hiddenSize) [] IntType rw;
      (cstHeadSize, rw) = create (ConstantIntOp headSize) [] IntType rw;
      (cstNumHeads, rw) = create (ConstantIntOp numHeads) [] IntType rw;
      (cstKVNumHeads, rw) = create (ConstantIntOp kvNumHeads) [] IntType rw;
      queryReshapeSizesInt = [batchSize, numHeads, sequenceLength, headSize];
      (queryReshapeSizesList, rw) =
         create PrimListConstructOp
           [cstBatchSize, cstNumHeads, cstSequenceLength, cstHeadSize]
           (ListType IntType) rw;
      (qInput, rw) =
         create AtenReshapeOp [query, queryReshapeSizesList]
           (ValueTensorType (Some queryReshapeSizesInt) (getOptionalDtype queryType)) rw;
      kvReshapeSizesInt = [batchSize, kvNumHeads, sequenceLength, headSize];
      (kvReshapeSizesList, rw) =
         create PrimListConstructOp
           [cstBatchSize, cstKVNumHeads, cstSequenceLength, cstHeadSize]
           (ListType IntType) rw;
      keyType = getType key;
      (kInput, rw) =
         create AtenReshapeOp [key, kvReshapeSizesList]
           (ValueTensorType (Some kvReshapeSizesInt) (getOptionalDtype keyType)) rw;
      valueType = getType value;
      (vInput, rw) =
         create AtenReshapeOp [value, kvReshapeSizesList]
           (ValueTensorType (Some kvReshapeSizesInt) (getOptionalDtype valueType)) rw;
      (cstNone, rw) = create ConstantNoneOp [] NoneType rw;
      (cstFalse, rw) = create (ConstantBoolOp False) [] BoolType rw;
      (qRotary, kRotary, rw) =
        (if doRotary \<noteq> 0
         then gqaRotaryEmbedding operands batchSize sequenceLength rotaryInterleaved
                cstBatchSize cstSequenceLength cstNone cstFalse qInput kInput rw
         else (qInput, kInput, rw));
      (cstEnableGQA, rw) = create (ConstantBoolOp True) [] BoolType rw;
      (cstFloatZero, rw) = create (ConstantFloatOp 0) [] FloatType rw;
      (cstScale, rw) =
        (if scale \<noteq> 0 then create (ConstantFloatOp scale) [] FloatType rw
         else (cstNone, rw));
      (attention, rw) =
         create AtenScaledDotProductAttentionOp
           [qRotary, kRotary, vInput, cstNone, cstFloatZero, cstFalse, cstScale,
            cstEnableGQA]
           (getType qRotary) rw;
      (attentionResultSizesList, rw) =
         create PrimListConstructOp [cstBatchSize, cstSequenceLength, cstHiddenSize]
           (ListType IntType) rw;
      (attention, rw) =
         create AtenReshapeOp [attention, attentionResultSizesList] (resultTypes ! 0) rw
  in
  (case (getOptionalSizes (getType pastKey), getOptionalSizes (resultTypes ! 1)) of
     (Some pastKeySizes, Some presentKeySizes) \<Rightarrow>
  (let (presentKey, rw) =
        (if pastKeySizes \<noteq> presentKeySizes
         then
          (let (cstConcatDim, rw) = create (ConstantIntOp 2) [] IntType rw;
               kvListType = ListType (ValueTensorType None None);
               (keyList, rw) =
                  create PrimListConstructOp [pastKey, kRotary] kvListType rw
           in create AtenCatOp [keyList, cstConcatDim] (resultTypes ! 1) rw)
         else (pastKey, rw))
   in
   (case (getOptionalSizes (getType pastValue), getOptionalSizes (resultTypes ! 2)) of
      (Some pastValueSizes, Some presentValueSizes) \<Rightarrow>
   (let (presentValue, rw) =
         (if pastValueSizes \<noteq> presentValueSizes
          then
           (let (cstConcatDim, rw) = create (ConstantIntOp 2) [] IntType rw;
                kvListType = ListType (ValueTensorType None None);
                (valueList, rw) =
                   create PrimListConstructOp [pastValue, vInput] kvListType rw
            in create AtenCatOp [valueList, cstConcatDim] (resultTypes ! 2) rw)
          else (pastValue, rw))
    in (Success, replaceOp [attention, presentKey, presentValue] rw))
    | _ \<Rightarrow> (Crash, rw)))
   | _ \<Rightarrow> (Crash, rw)))"

text \<open>
  The rule of lines 66-457: the checks, then the construction. The first three entries of
  \<^verbatim>\<open>queryDims\<close> are read without a check of the rank.
\<close>

definition GroupQueryAttention :: "source_op \<Rightarrow> rewriter \<Rightarrow> LogicalResult \<times> rewriter" where
  "GroupQueryAttention op rw =
    (case tensorOperandsList op of
       None \<Rightarrow> notifyMatchFailure ''operands bind failure'' rw
     | Some operands \<Rightarrow>
    (case tensorResultTypes op of
       None \<Rightarrow> notifyMatchFailure ''result types bind failure'' rw
     | Some resultTypes \<Rightarrow>
    if length resultTypes \<noteq> 3
    then notifyMatchFailure ''expected 3 result types'' rw
    else
    (case (s64IntegerAttr op ''do_rotary'' 0, s64IntegerAttr op ''kv_num_heads'' 0,
           s64IntegerAttr op ''local_window_size'' (- 1), s64IntegerAttr op ''num_heads'' 0,
           s64IntegerAttr op ''rotary_interleaved'' 0, f32FloatAttr op ''scale'' 0,
           s64IntegerAttr op ''smooth_softmax'' 0, f32FloatAttr op ''softcap'' 0) of
       (Some doRotary, Some kvNumHeads, Some localWindowSize, Some numHeads,
        Some rotaryInterleaved, Some scale, Some smoothSoftmax, Some softcap) \<Rightarrow>
    if \<not> (length operands = 9 \<or> (doRotary = 0 \<and> length operands = 7))
    then notifyMatchFailure
           (''Unimplemented:  excepted input operands to be either '' @
            ''7 or 9 based on the `do_rotary` attribute'') rw
    else if kvNumHeads = 0
    then notifyMatchFailure
           ''kv_num_heads is a required attribute and should be non-zero'' rw
    else if localWindowSize \<noteq> - 1
    then notifyMatchFailure
           (''Unimplemented: local_window_size attribute is not supported, '' @
            ''hence it should have default value equal to -1'') rw
    else if numHeads = 0
    then notifyMatchFailure
           ''num_heads is a required attribute and should be non-zero'' rw
    else if smoothSoftmax \<noteq> 0
    then notifyMatchFailure
           (''Unimplemented: smooth_softmax attribute is not supported, hence '' @
            ''it should have default value equal to 0'') rw
    else if softcap \<noteq> 0
    then notifyMatchFailure
           (''Unimplemented: softcap attribute is not supported, '' @
            ''hence it should have default value equal to 0.0'') rw
    else
    (let query = operands ! 0;
         key = operands ! 1;
         value = operands ! 2;
         pastKey = operands ! 3;
         pastValue = operands ! 4;
         seqlensK = operands ! 5;
         totalSequenceLength = operands ! 6;
         queryType = getType query
     in
     if \<not> (hasSizes queryType \<and> areAllSizesKnown queryType)
     then notifyMatchFailure ''Expected `query` input to have statically known sizes'' rw
     else
     (case getOptionalSizes queryType of
        Some (batchSize # sequenceLength # hiddenSize # _) \<Rightarrow>
     gqaRewrite operands resultTypes doRotary kvNumHeads numHeads rotaryInterleaved scale
       batchSize sequenceLength hiddenSize rw
      | _ \<Rightarrow> (Crash, rw)))
     | _ \<Rightarrow> notifyMatchFailure ''op attributes bind failure'' rw)))"

section \<open>The quantized elementwise rules\<close>

text \<open>
  Each rule dequantizes its inputs, computes in floating point and requantizes. The
  requantization reads the quantized result type from
  \<^verbatim>\<open>getQTorchTypeFromTorchIntType\<close> through a \<^verbatim>\<open>dyn_cast\<close> and calls
  \<^verbatim>\<open>getDtype()\<close> on it without a null check.
\<close>

definition QLinearAdd :: "utils \<Rightarrow> source_op \<Rightarrow> rewriter \<Rightarrow> LogicalResult \<times> rewriter" where
  "QLinearAdd u op rw =
    (case (tensorOperandsList op, tensorResultType op) of
       (Some operands, Some resultType) \<Rightarrow>
    if length operands \<noteq> 8
    then notifyMatchFailure ''Unimplemented: expected 8 input operands'' rw
    else
    (case call (extractPerTensorQuantizationArguments u (operands ! 1) (operands ! 2)) rw of
       (None, rw) \<Rightarrow>
         notifyMatchFailure ''Incompatible arguments for per-tensor quantization'' rw
     | (Some (aScale, aZp), rw) \<Rightarrow>
    (case call (extractPerTensorQuantizationArguments u (operands ! 4) (operands ! 5)) rw of
       (None, rw) \<Rightarrow>
         notifyMatchFailure ''Incompatible arguments for per-tensor quantization'' rw
     | (Some (bScale, bZp), rw) \<Rightarrow>
    (case call (extractPerTensorQuantizationArguments u (operands ! 6) (operands ! 7)) rw of
       (None, rw) \<Rightarrow>
         notifyMatchFailure ''Incompatible arguments for per-tensor quantization'' rw
     | (Some (cScale, cZp), rw) \<Rightarrow>
    (case call (createDequantizeTensor u (operands ! 0) aScale aZp) rw of
       (None, rw) \<Rightarrow>
         notifyMatchFailure
           (''Failed to dequantize the input tensor `a` because of '' @ ''missing sizes'') rw
     | (Some a, rw) \<Rightarrow>
    (case call (createDequantizeTensor u (operands ! 3) bScale bZp) rw of
       (None, rw) \<Rightarrow>
         notifyMatchFailure
           (''Failed to dequantize the input tensor `b` because of '' @ ''missing sizes'') rw
     | (Some b, rw) \<Rightarrow>
    (let cTy = ValueTensorType (getOptionalSizes resultType) (Some F32Type);
         (alpha, rw) = create (ConstantFloatOp 1) [] FloatType rw;
         (c, rw) = create AtenAddTensorOp [a, b, alpha] cTy rw
     in
     (case getQTorchTypeFromTorchIntType u resultType of
        Some (ValueTensorType qSizes qDtype) \<Rightarrow>
          (let cTy = ValueTensorType qSizes qDtype;
               (dtyVal, rw) =
                  create (ConstantIntOp (getScalarTypeForType u qDtype)) [] IntType rw;
               (c, rw) = create AtenQuantizePerTensorOp [c, cScale, cZp, dtyVal] cTy rw
           in (Success, replaceOpWithNewOp AtenIntReprOp [c] resultType rw))
      | _ \<Rightarrow> (Crash, rw))))))))
     | _ \<Rightarrow> failure rw)"

definition QLinearLeakyRelu :: "utils \<Rightarrow> source_op \<Rightarrow> rewriter \<Rightarrow> LogicalResult \<times> rewriter" where
  "QLinearLeakyRelu u op rw =
    (case (tensorOperandsList op, tensorResultType op, f32FloatAttr op ''alpha'' 0) of
       (Some operands, Some resultType, Some alpha) \<Rightarrow>
    if length operands \<noteq> 5
    then notifyMatchFailure ''Unimplemented: expected 5 input operands'' rw
    else
    (case call (extractPerTensorQuantizationArguments u (operands ! 1) (operands ! 2)) rw of
       (None, rw) \<Rightarrow>
         notifyMatchFailure ''Incompatible arguments for per-tensor quantization'' rw
     | (Some (xScale, xZp), rw) \<Rightarrow>
    (case call (extractPerTensorQuantizationArguments u (operands ! 3) (operands ! 4)) rw of
       (None, rw) \<Rightarrow>
         notifyMatchFailure ''Incompatible arguments for per-tensor quantization'' rw
     | (Some (yScale, yZp), rw) \<Rightarrow>
    (case call (createDequantizeTensor u (operands ! 0) xScale xZp) rw of
       (None, rw) \<Rightarrow>
         notifyMatchFailure
           (''Failed to dequantize the input tensor `x` because of '' @ ''missing sizes'') rw
     | (Some x, rw) \<Rightarrow>
    (let (constAlpha, rw) = create (ConstantFloatOp alpha) [] FloatType rw;
         yTy = ValueTensorType (getOptionalSizes resultType) (Some F32Type);
         (y, rw) = create AtenLeakyReluOp [x, constAlpha] yTy rw
     in
     (case getQTorchTypeFromTorchIntType u resultType of
        Some (ValueTensorType qSizes qDtype) \<Rightarrow>
          (let yTy = ValueTensorType qSizes qDtype;
               (dtyVal, rw) =
                  create (ConstantIntOp (getScalarTypeForType u qDtype)) [] IntType rw;
               (y, rw) = create AtenQuantizePerTensorOp [y, yScale, yZp, dtyVal] yTy rw
           in (Success, replaceOpWithNewOp AtenIntReprOp [y] resultType rw))
      | _ \<Rightarrow> (Crash, rw))))))
     | _ \<Rightarrow> failure rw)"

definition QLinearSigmoid :: "utils \<Rightarrow> source_op \<Rightarrow> rewriter \<Rightarrow> LogicalResult \<times> rewriter" where
  "QLinearSigmoid u op rw =
    (case (tensorOperandsList op, tensorResultType op) of
       (Some operands, Some resultType) \<Rightarrow>
    if length operands \<noteq> 5
    then notifyMatchFailure ''Unimplemented: expected 5 input operands'' rw
    else
    (case call (extractPerTensorQuantizationArguments u (operands ! 1) (operands ! 2)) rw of
       (None, rw) \<Rightarrow>
         notifyMatchFailure ''Incompatible arguments for per-tensor quantization'' rw
     | (Some (xScale, xZp), rw) \<Rightarrow>
    (case call (extractPerTensorQuantizationArguments u (operands ! 3) (operands ! 4)) rw of
       (None, rw) \<Rightarrow>
         notifyMatchFailure ''Incompatible arguments for per-tensor quantization'' rw
     | (Some (yScale, yZp), rw) \<Rightarrow>
    (case call (createDequantizeTensor u (operands ! 0) xScale xZp) rw of
       (None, rw) \<Rightarrow>
         notifyMatchFailure
           (''Failed to dequantize the input tensor `x` because of '' @ ''missing sizes'') rw
     | (Some x, rw) \<Rightarrow>
    (let yTy = ValueTensorType (getOptionalSizes resultType) (Some F32Type);
         (y, rw) = create AtenSigmoidOp [x] yTy rw
     in
     (case getQTorchTypeFromTorchIntType u resultType of
        Some (ValueTensorType qSizes qDtype) \<Rightarrow>
          (let yTy = ValueTensorType qSizes qDtype;
               (dtyVal, rw) =
                  create (ConstantIntOp (getScalarTypeForType u qDtype)) [] IntType rw;
               (y, rw) = create AtenQuantizePerTensorOp [y, yScale, yZp, dtyVal] yTy rw
           in (Success, replaceOpWithNewOp AtenIntReprOp [y] resultType rw))
      | _ \<Rightarrow> (Crash, rw))))))
     | _ \<Rightarrow> failure rw)"

definition QLinearMul :: "utils \<Rightarrow> source_op \<Rightarrow> rewriter \<Rightarrow> LogicalResult \<times> rewriter" where
  "QLinearMul u op rw =
    (case (tensorOperandsList op, tensorResultType op) of
       (Some operands, Some resultType) \<Rightarrow>
    if length operands \<noteq> 8
    then notifyMatchFailure ''Unimplemented: expected 8 input operands'' rw
    else
    (case call (extractPerTensorQuantizationArguments u (operands ! 1) (operands ! 2)) rw of
       (None, rw) \<Rightarrow>
         notifyMatchFailure ''Incompatible arguments for per-tensor quantization'' rw
     | (Some (aScale, aZp), rw) \<Rightarrow>
    (case call (extractPerTensorQuantizationArguments u (operands ! 4) (operands ! 5)) rw of
       (None, rw) \<Rightarrow>
         notifyMatchFailure ''Incompatible arguments for per-tensor quantization'' rw
     | (Some (bScale, bZp), rw) \<Rightarrow>
    (case call (extractPerTensorQuantizationArguments u (operands ! 6) (operands ! 7)) rw of
       (None, rw) \<Rightarrow>
         notifyMatchFailure ''Incompatible arguments for per-tensor quantization'' rw
     | (Some (cScale, cZp), rw) \<Rightarrow>
    (case call (createDequantizeTensor u (operands ! 0) aScale aZp) rw of
       (None, rw) \<Rightarrow>
         notifyMatchFailure
           (''Failed to dequantize the input tensor `a` because of '' @ ''missing sizes'') rw
     | (Some a, rw) \<Rightarrow>
    (case call (createDequantizeTensor u (operands ! 3) bScale bZp) rw of
       (None, rw) \<Rightarrow>
         notifyMatchFailure
           (''Failed to dequantize the input tensor `b` because of '' @ ''missing sizes'') rw
     | (Some b, rw) \<Rightarrow>
    (let cTy = ValueTensorType (getOptionalSizes resultType) (Some F32Type);
         (c, rw) = create AtenMulTensorOp [a, b] cTy rw
     in
     (case getQTorchTypeFromTorchIntType u resultType of
        Some (ValueTensorType qSizes qDtype) \<Rightarrow>
          (let cTy = ValueTensorType qSizes qDtype;
               (dtyVal, rw) =
                  create (ConstantIntOp (getScalarTypeForType u qDtype)) [] IntType rw;
               (c, rw) = create AtenQuantizePerTensorOp [c, cScale, cZp, dtyVal] cTy rw
           in (Success, replaceOpWithNewOp AtenIntReprOp [c] resultType rw))
      | _ \<Rightarrow> (Crash, rw))))))))
     | _ \<Rightarrow> failure rw)"

section \<open>QLinearAveragePool\<close>

definition QLinearAveragePool :: "utils \<Rightarrow> source_op \<Rightarrow> rewriter \<Rightarrow> LogicalResult \<times> rewriter" where
  "QLinearAveragePool u op rw =
    (case (tensorOperandsList op, tensorResultType op,
           s64IntegerAttr op ''channels_last'' 0) of
       (Some operands, Some resultType, Some channelsLast) \<Rightarrow>
    if channelsLast \<noteq> 0
    then notifyMatchFailure
           ''Unimplemented: support not present for channels_last attribute'' rw
    else if length operands \<noteq> 5
    then notifyMatchFailure ''Unimplemented: expected 5 input operands'' rw
    else
    (case call (extractPerTensorQuantizationArguments u (operands ! 1) (operands ! 2)) rw of
       (None, rw) \<Rightarrow>
         notifyMatchFailure ''Incompatible arguments for per-tensor quantization'' rw
     | (Some (xScale, xZp), rw) \<Rightarrow>
    (case call (extractPerTensorQuantizationArguments u (operands ! 3) (operands ! 4)) rw of
       (None, rw) \<Rightarrow>
         notifyMatchFailure ''Incompatible arguments for per-tensor quantization'' rw
     | (Some (yScale, yZp), rw) \<Rightarrow>
    (case call (createDequantizeTensor u (operands ! 0) xScale xZp) rw of
       (None, rw) \<Rightarrow>
         notifyMatchFailure
           (''Failed to dequantize the input tensor `x` because of '' @ ''missing sizes'') rw
     | (Some x, rw) \<Rightarrow>
    (let newOperands = [x];
         newAttributes =
            (''name'', StringAttr ''onnx.AveragePool'') #
            filter (\<lambda>namedAttr. fst namedAttr \<noteq> ''name'') (opAttrs op);
         yTy = ValueTensorType (getOptionalSizes resultType) (Some F32Type);
         (averagePool, rw) =
            create (OperatorOp newAttributes (opNumRegions op)) newOperands yTy rw
     in
     (case getQTorchTypeFromTorchIntType u resultType of
        Some (ValueTensorType qSizes qDtype) \<Rightarrow>
          (let yTy = ValueTensorType qSizes qDtype;
               (dtyVal, rw) =
                  create (ConstantIntOp (getScalarTypeForType u qDtype)) [] IntType rw;
               (averagePool, rw) =
                  create AtenQuantizePerTensorOp [averagePool, yScale, yZp, dtyVal] yTy rw
           in (Success, replaceOpWithNewOp AtenIntReprOp [averagePool] resultType rw))
      | _ \<Rightarrow> (Crash, rw))))))
     | _ \<Rightarrow> failure rw)"

section \<open>QLinearGlobalAveragePool\<close>

text \<open>
  The loop of lines 734-748 over the spatial dimensions \<open>i = 2, ..., inputRank - 1\<close>. It
  reads \<^verbatim>\<open>resultShape[i]\<close> without comparing \<open>i\<close> with the rank of the result; \<open>None\<close> is
  a read past its end.
\<close>

function avgPoolKernel ::
  "Value \<Rightarrow> int list \<Rightarrow> int list \<Rightarrow> Value \<Rightarrow> Value \<Rightarrow> nat \<Rightarrow>
   Value list \<Rightarrow> Value list \<Rightarrow> Value list \<Rightarrow> rewriter \<Rightarrow>
   (Value list \<times> Value list \<times> Value list) option \<times> rewriter" where
  "avgPoolKernel x inputShape resultShape cstZero cstOne i cstKernel cstPadding cstStrides rw =
     (if i < length inputShape
      then
        (if inputShape ! i = kUnknownSize
         then
           (case create (ConstantIntOp (int i)) [] IntType rw of
              (dimValue, rw) \<Rightarrow>
           (case create AtenSizeIntOp [x, dimValue] IntType rw of
              (inputDimSize, rw) \<Rightarrow>
                avgPoolKernel x inputShape resultShape cstZero cstOne (i + 1)
                  (cstKernel @ [inputDimSize]) (cstPadding @ [cstZero])
                  (cstStrides @ [cstOne]) rw))
         else if i < length resultShape
         then
           (case create (ConstantIntOp (inputShape ! i - resultShape ! i + 1)) [] IntType rw of
              (kernelSize, rw) \<Rightarrow>
                avgPoolKernel x inputShape resultShape cstZero cstOne (i + 1)
                  (cstKernel @ [kernelSize]) (cstPadding @ [cstZero])
                  (cstStrides @ [cstOne]) rw)
         else (None, rw))
      else (Some (cstKernel, cstPadding, cstStrides), rw))"
  by pat_completeness auto
termination
  by (relation "measure (\<lambda>(x, inputShape, resultShape, cstZero, cstOne, i, r).
        length inputShape - i)") auto

definition QLinearGlobalAveragePool ::
  "utils \<Rightarrow> source_op \<Rightarrow> rewriter \<Rightarrow> LogicalResult \<times> rewriter" where
  "QLinearGlobalAveragePool u op rw =
    (case (tensorOperands op 5, tensorResultType op,
           s64IntegerAttr op ''channels_last'' 0) of
       (Some operands, Some resultType, Some channelsLast) \<Rightarrow>
    if channelsLast \<noteq> 0
    then notifyMatchFailure
           ''Unimplemented: support not present for channels_last attribute'' rw
    else
    (case getOptionalSizes (getType (operands ! 0)) of
       None \<Rightarrow> notifyMatchFailure ''Expected input argument `x` to have sizes'' rw
     | Some inputShape \<Rightarrow>
    (case getOptionalSizes resultType of
       None \<Rightarrow> notifyMatchFailure ''Expected result type having sizes'' rw
     | Some resultShape \<Rightarrow>
    (case call (extractPerTensorQuantizationArguments u (operands ! 1) (operands ! 2)) rw of
       (None, rw) \<Rightarrow>
         notifyMatchFailure ''Incompatible arguments for per-tensor quantization'' rw
     | (Some (xScale, xZp), rw) \<Rightarrow>
    (case call (extractPerTensorQuantizationArguments u (operands ! 3) (operands ! 4)) rw of
       (None, rw) \<Rightarrow>
         notifyMatchFailure ''Incompatible arguments for per-tensor quantization'' rw
     | (Some (yScale, yZp), rw) \<Rightarrow>
    (case call (createDequantizeTensor u (operands ! 0) xScale xZp) rw of
       (None, rw) \<Rightarrow>
         notifyMatchFailure
           (''Failed to dequantize the input tensor `x` because of '' @ ''missing sizes'') rw
     | (Some x, rw) \<Rightarrow>
    (let (cstZero, rw) = create (ConstantIntOp 0) [] IntType rw;
         (cstOne, rw) = create (ConstantIntOp 1) [] IntType rw;
         inputRank = length inputShape
     in
     (case avgPoolKernel x inputShape resultShape cstZero cstOne 2 [] [] [] rw of
        (None, rw) \<Rightarrow> (Crash, rw)
      | (Some (cstKernel, cstPadding, cstStrides), rw) \<Rightarrow>
     (let (kernelSizeList, rw) = create PrimListConstructOp cstKernel (ListType IntType) rw;
          (paddingList, rw) = create PrimListConstructOp cstPadding (ListType IntType) rw;
          (stridesList, rw) = create PrimListConstructOp cstStrides (ListType IntType) rw;
          (cstFalse, rw) = create (ConstantBoolOp False) [] BoolType rw;
          cstCeilMode = cstFalse;
          cstCountIncludePad = cstFalse;
          (cstNone, rw) = create ConstantNoneOp [] NoneType rw;
          yTy = ValueTensorType (Some resultShape) (Some F32Type)
      in
      (case (if inputRank = 3
             then (case create AtenAvgPool1dOp
                          [x, kernelSizeList, stridesList, paddingList, cstCeilMode,
                           cstCountIncludePad] yTy rw of
                     (avgpool, rw) \<Rightarrow> (Some avgpool, rw))
             else if inputRank = 4
             then (case create AtenAvgPool2dOp
                          [x, kernelSizeList, stridesList, paddingList, cstCeilMode,
                           cstCountIncludePad, cstNone] yTy rw of
                     (avgpool, rw) \<Rightarrow> (Some avgpool, rw))
             else if inputRank = 5
             then (case create AtenAvgPool3dOp
                          [x, kernelSizeList, stridesList, paddingList, cstCeilMode,
                           cstCountIncludePad, cstNone] yTy rw of
                     (avgpool, rw) \<Rightarrow> (Some avgpool, rw))
             else (None, rw)) of
         (None, rw) \<Rightarrow> failure rw
       | (Some avgpool, rw) \<Rightarrow>
      (case getQTorchTypeFromTorchIntType u resultType of
         Some (ValueTensorType qSizes qDtype) \<Rightarrow>
           (let yTy = ValueTensorType qSizes qDtype;
                (dtyVal, rw) =
                   create (ConstantIntOp (getScalarTypeForType u qDtype)) [] IntType rw;
                (avgpool, rw) =
                   create AtenQuantizePerTensorOp [avgpool, yScale, yZp, dtyVal] yTy rw
            in (Success, replaceOpWithNewOp AtenIntReprOp [avgpool] resultType rw))
       | _ \<Rightarrow> (Crash, rw)))))))))))
     | _ \<Rightarrow> failure rw)"

section \<open>QLinearConcat\<close>

text \<open>
  The loop of lines 603-607: \<^verbatim>\<open>for (unsigned i = 2; i < operands.size(); i = i + 3)\<close>
  pushes \<^verbatim>\<open>operands[i]\<close>, \<^verbatim>\<open>operands[i + 1]\<close> and \<^verbatim>\<open>operands[i + 2]\<close>. Only \<open>i\<close> is
  compared with the number of operands; \<open>None\<close> is a read past the end of \<^verbatim>\<open>operands\<close>.
\<close>

function collectInputs ::
  "Value list \<Rightarrow> nat \<Rightarrow> Value list \<Rightarrow> Value list \<Rightarrow> Value list \<Rightarrow>
   (Value list \<times> Value list \<times> Value list) option" where
  "collectInputs operands i inputs inputScales inputZeroPoints =
     (if i < length operands
      then
        (if i + 2 < length operands
         then collectInputs operands (i + 3) (inputs @ [operands ! i])
                (inputScales @ [operands ! (i + 1)])
                (inputZeroPoints @ [operands ! (i + 2)])
         else None)
      else Some (inputs, inputScales, inputZeroPoints))"
  by pat_completeness auto
termination
  by (relation "measure (\<lambda>(operands, i, r). length operands - i)") auto

text \<open>
  \<^verbatim>\<open>unsigned numInputs = (operands.size() - 2) / 3\<close>: the subtraction is on \<^verbatim>\<open>size_t\<close>
  (64 bits, wrapping below two operands), the quotient is narrowed to 32 bits.
\<close>

definition concatNumInputs :: "Value list \<Rightarrow> nat" where
  "concatNumInputs operands =
     nat (unsigned32 (((int (length operands) - 2) mod 2 ^ 64) div 3))"

text \<open>The loop of lines 619-637, which leaves the rule at the first helper that fails.\<close>

function dequantizeInputs ::
  "utils \<Rightarrow> nat \<Rightarrow> nat \<Rightarrow> Value list \<Rightarrow> Value list \<Rightarrow> Value list \<Rightarrow> Value list \<Rightarrow>
   rewriter \<Rightarrow> (string + Value list) \<times> rewriter" where
  "dequantizeInputs u i numInputs inputs inputScales inputZeroPoints dequantizedInputs rw =
     (if i < numInputs
      then
        (case call (extractPerTensorQuantizationArguments u
                      (inputScales ! i) (inputZeroPoints ! i)) rw of
           (None, rw) \<Rightarrow>
             (Inl (''Incompatible scale and zero-points argument for '' @
                   ''per-tensor quantization''), rw)
         | (Some (scale, zeroPoint), rw) \<Rightarrow>
        (case call (createDequantizeTensor u (inputs ! i) scale zeroPoint) rw of
           (None, rw) \<Rightarrow>
             (Inl (''Failed to dequantize the input tensor because of '' @
                   ''missing sizes''), rw)
         | (Some dequantizedInput, rw) \<Rightarrow>
             dequantizeInputs u (i + 1) numInputs inputs inputScales inputZeroPoints
               (dequantizedInputs @ [dequantizedInput]) rw))
      else (Inr dequantizedInputs, rw))"
  by pat_completeness auto
termination
  by (relation "measure (\<lambda>(u, i, numInputs, r). numInputs - i)") auto

definition QLinearConcat :: "utils \<Rightarrow> source_op \<Rightarrow> rewriter \<Rightarrow> LogicalResult \<times> rewriter" where
  "QLinearConcat u op rw =
    (case (tensorOperandsList op, s64IntegerAttr op ''axis'' 0, tensorResultType op) of
       (Some operands, Some axis, Some resultType) \<Rightarrow>
    (case collectInputs operands 2 [] [] [] of
       None \<Rightarrow> (Crash, rw)
     | Some (inputs, inputScales, inputZeroPoints) \<Rightarrow>
    (let numInputs = concatNumInputs operands
     in
     if \<not> (length inputs = length inputScales \<and>
            length inputScales = length inputZeroPoints \<and>
            length inputs = numInputs)
     then notifyMatchFailure
            (''Incompatible number of input operands, scales and/or '' @
             ''zero-points'') rw
     else
     (case dequantizeInputs u 0 numInputs inputs inputScales inputZeroPoints [] rw of
        (Inl msg, rw) \<Rightarrow> notifyMatchFailure msg rw
      | (Inr dequantizedInputs, rw) \<Rightarrow>
     (case dequantizedInputs of
        [] \<Rightarrow> (Crash, rw)
      | dequantizedInput0 # _ \<Rightarrow>
     (let listElemType = ValueTensorType None None;
          listType = ListType listElemType;
          (tensorList, rw) = create PrimListConstructOp dequantizedInputs listType rw;
          (cstAxis, rw) = create (ConstantIntOp axis) [] IntType rw;
          concatTy = ValueTensorType (getOptionalSizes resultType) (Some F32Type);
          (concat, rw) = create AtenCatOp [tensorList, cstAxis] concatTy rw
      in
      (case call (extractPerTensorQuantizationArguments u (operands ! 0) (operands ! 1)) rw of
         (None, rw) \<Rightarrow>
           notifyMatchFailure
             (''Incompatible scale and zero-points argument for '' @
              ''per-tensor quantization'') rw
       | (Some (yScale, yZp), rw) \<Rightarrow>
      (case getQTorchTypeFromTorchIntType u resultType of
         Some (ValueTensorType qSizes qDtype) \<Rightarrow>
           (let yTy = ValueTensorType qSizes qDtype;
                (dtyVal, rw) =
                   create (ConstantIntOp (getScalarTypeForType u qDtype)) [] IntType rw;
                (result, rw) =
                   create AtenQuantizePerTensorOp [concat, yScale, yZp, dtyVal] yTy rw
            in (Success, replaceOpWithNewOp AtenIntReprOp [result] resultType rw))
       | _ \<Rightarrow> (Crash, rw))))))))
     | _ \<Rightarrow> failure rw)"

section \<open>The registry\<close>


section \<open>What the emitted operations compute\<close>

text \<open>
  The position indices of GroupQueryAttention are integer tensors computed by the
  operations the rule emits. To state what they are, the integer and boolean operations
  are given their PyTorch meaning (the source quotes it in the comment of lines 245-260):
  a tensor is a shape and its elements in row-major order, booleans in tensors are \<open>0\<close>
  and \<open>1\<close>, binary operations broadcast from the right, \<^verbatim>\<open>view\<close> needs a size list that
  fits the number of elements (one entry may be \<open>-1\<close>), \<^verbatim>\<open>item\<close> needs a single
  element. An operation outside this fragment, or applied to arguments it does not
  accept, has no value (\<open>None\<close>).
\<close>


record tensor =
  tshape :: "nat list"
  tdata :: "int list"

datatype rvalue =
    RInt int
  | RBool bool
  | RFloat real
  | RNone
  | RList "rvalue list"
  | RTensor tensor

definition numel :: "nat list \<Rightarrow> nat" where
  "numel sh = prod_list sh"

definition wellFormed :: "tensor \<Rightarrow> bool" where
  "wellFormed t = (length (tdata t) = numel (tshape t))"

definition full :: "nat list \<Rightarrow> int \<Rightarrow> tensor" where
  "full sh x = \<lparr>tshape = sh, tdata = replicate (numel sh) x\<rparr>"

fun intList :: "rvalue list \<Rightarrow> int list option" where
  "intList [] = Some []"
| "intList (RInt i # vs) = map_option ((#) i) (intList vs)"
| "intList (_ # vs) = None"

definition sizeList :: "rvalue list \<Rightarrow> nat list option" where
  "sizeList vs =
     (case intList vs of
        None \<Rightarrow> None
      | Some ints \<Rightarrow> (if list_all (\<lambda>i. 0 \<le> i) ints then Some (map nat ints) else None))"

fun broadcastRev :: "nat list \<Rightarrow> nat list \<Rightarrow> nat list option" where
  "broadcastRev [] ys = Some ys"
| "broadcastRev (x # xs) [] = Some (x # xs)"
| "broadcastRev (x # xs) (y # ys) =
     (if x = y \<or> y = 1 then map_option ((#) x) (broadcastRev xs ys)
      else if x = 1 then map_option ((#) y) (broadcastRev xs ys)
      else None)"

definition broadcastShapes :: "nat list \<Rightarrow> nat list \<Rightarrow> nat list option" where
  "broadcastShapes a b = map_option rev (broadcastRev (rev a) (rev b))"

fun expandData :: "nat list \<Rightarrow> nat list \<Rightarrow> int list \<Rightarrow> int list" where
  "expandData (n # ns) (m # ms) d =
     concat (map (\<lambda>i. expandData ns ms
                    (take (numel ms) (drop ((if m = 1 then 0 else i) * numel ms) d)))
               [0..<n])"
| "expandData _ _ d = d"

definition broadcastTo :: "nat list \<Rightarrow> tensor \<Rightarrow> tensor" where
  "broadcastTo sh t =
     (if tshape t = sh then t
      else \<lparr>tshape = sh,
            tdata = expandData sh
                      (replicate (length sh - length (tshape t)) 1 @ tshape t) (tdata t)\<rparr>)"

definition binop :: "(int \<Rightarrow> int \<Rightarrow> int) \<Rightarrow> tensor \<Rightarrow> tensor \<Rightarrow> tensor option" where
  "binop f a b =
     (case broadcastShapes (tshape a) (tshape b) of
        None \<Rightarrow> None
      | Some sh \<Rightarrow>
          Some \<lparr>tshape = sh,
                tdata = map2 f (tdata (broadcastTo sh a)) (tdata (broadcastTo sh b))\<rparr>)"

definition whereSelf :: "tensor \<Rightarrow> tensor \<Rightarrow> tensor \<Rightarrow> tensor option" where
  "whereSelf c x y =
     (case broadcastShapes (tshape x) (tshape y) of
        None \<Rightarrow> None
      | Some sh1 \<Rightarrow>
          (case broadcastShapes (tshape c) sh1 of
             None \<Rightarrow> None
           | Some sh \<Rightarrow>
               Some \<lparr>tshape = sh,
                     tdata = map (\<lambda>(cv, xv, yv). if cv \<noteq> 0 then xv else yv)
                               (zip (tdata (broadcastTo sh c))
                                  (zip (tdata (broadcastTo sh x))
                                     (tdata (broadcastTo sh y))))\<rparr>))"

fun repeatData :: "nat list \<Rightarrow> nat list \<Rightarrow> int list \<Rightarrow> int list" where
  "repeatData (m # ms) (r # rs) d =
     concat (replicate r
       (concat (map (\<lambda>i. repeatData ms rs (take (numel ms) (drop (i * numel ms) d)))
                  [0..<m])))"
| "repeatData _ _ d = d"

definition repeat :: "tensor \<Rightarrow> nat list \<Rightarrow> tensor option" where
  "repeat t repeats =
     (if length repeats < length (tshape t) then None
      else (let sh = replicate (length repeats - length (tshape t)) 1 @ tshape t
            in Some \<lparr>tshape = map2 (*) sh repeats, tdata = repeatData sh repeats (tdata t)\<rparr>))"

definition view :: "tensor \<Rightarrow> int list \<Rightarrow> tensor option" where
  "view t sz =
     (let known = filter (\<lambda>d. d \<noteq> - 1) sz;
          p = prod_list known;
          n = int (length (tdata t))
      in if list_all (\<lambda>d. 0 \<le> d) known \<and> length known = length sz \<and> p = n
         then Some \<lparr>tshape = map nat sz, tdata = tdata t\<rparr>
         else if list_all (\<lambda>d. 0 \<le> d) known \<and> length known + 1 = length sz \<and>
                 0 < p \<and> n mod p = 0
         then Some \<lparr>tshape = map (\<lambda>d. if d = - 1 then nat (n div p) else nat d) sz,
                    tdata = tdata t\<rparr>
         else None)"

definition evalOp :: "opkind \<Rightarrow> rvalue list \<Rightarrow> rvalue option" where
  "evalOp k vs =
     (case k of
        ConstantIntOp i \<Rightarrow> Some (RInt i)
      | ConstantFloatOp x \<Rightarrow> Some (RFloat x)
      | ConstantBoolOp b \<Rightarrow> Some (RBool b)
      | ConstantNoneOp \<Rightarrow> Some RNone
      | PrimListConstructOp \<Rightarrow> Some (RList vs)
      | AtenItemOp \<Rightarrow>
          (case vs of
             [RTensor t] \<Rightarrow> (case tdata t of [x] \<Rightarrow> Some (RInt x) | _ \<Rightarrow> None)
           | _ \<Rightarrow> None)
      | AtenGtIntOp \<Rightarrow>
          (case vs of [RInt a, RInt b] \<Rightarrow> Some (RBool (a > b)) | _ \<Rightarrow> None)
      | AtenNeIntOp \<Rightarrow>
          (case vs of [RInt a, RInt b] \<Rightarrow> Some (RBool (a \<noteq> b)) | _ \<Rightarrow> None)
      | Aten__And__BoolOp \<Rightarrow>
          (case vs of [RBool a, RBool b] \<Rightarrow> Some (RBool (a \<and> b)) | _ \<Rightarrow> None)
      | AtenIntBoolOp \<Rightarrow>
          (case vs of [RBool a] \<Rightarrow> Some (RInt (if a then 1 else 0)) | _ \<Rightarrow> None)
      | AtenZerosOp \<Rightarrow>
          (case vs of
             RList sizes # _ \<Rightarrow> map_option (\<lambda>sh. RTensor (full sh 0)) (sizeList sizes)
           | _ \<Rightarrow> None)
      | AtenFullOp \<Rightarrow>
          (case vs of
             RList sizes # RInt fillValue # RInt dt # _ \<Rightarrow>
               map_option
                 (\<lambda>sh. RTensor (full sh (if dt = ScalarType_Bool
                                          then (if fillValue \<noteq> 0 then 1 else 0)
                                          else fillValue)))
                 (sizeList sizes)
           | _ \<Rightarrow> None)
      | AtenToDtypeOp \<Rightarrow>
          (case vs of RTensor t # RInt dt # _ \<Rightarrow>
                        (if dt = ScalarType_Long then Some (RTensor t) else None)
           | _ \<Rightarrow> None)
      | AtenAddScalarOp \<Rightarrow>
          (case vs of
             [RTensor t, RInt other, RInt alpha] \<Rightarrow>
               Some (RTensor (t\<lparr>tdata := map (\<lambda>x. x + alpha * other) (tdata t)\<rparr>))
           | _ \<Rightarrow> None)
      | AtenSubScalarOp \<Rightarrow>
          (case vs of
             [RTensor t, RInt other, RInt alpha] \<Rightarrow>
               Some (RTensor (t\<lparr>tdata := map (\<lambda>x. x - alpha * other) (tdata t)\<rparr>))
           | _ \<Rightarrow> None)
      | AtenArangeOp \<Rightarrow>
          (case vs of
             RInt e # _ \<Rightarrow>
               Some (RTensor \<lparr>tshape = [nat e], tdata = map int [0..<nat e]\<rparr>)
           | _ \<Rightarrow> None)
      | AtenRepeatOp \<Rightarrow>
          (case vs of
             [RTensor t, RList repeats] \<Rightarrow>
               (case sizeList repeats of
                  None \<Rightarrow> None
                | Some rs \<Rightarrow> map_option RTensor (repeat t rs))
           | _ \<Rightarrow> None)
      | AtenViewOp \<Rightarrow>
          (case vs of
             [RTensor t, RList sizes] \<Rightarrow>
               (case intList sizes of
                  None \<Rightarrow> None
                | Some ints \<Rightarrow> map_option RTensor (view t ints))
           | _ \<Rightarrow> None)
      | AtenAddTensorOp \<Rightarrow>
          (case vs of
             [RTensor a, RTensor b, RInt alpha] \<Rightarrow>
               map_option RTensor (binop (\<lambda>x y. x + alpha * y) a b)
           | _ \<Rightarrow> None)
      | AtenLtTensorOp \<Rightarrow>
          (case vs of
             [RTensor a, RTensor b] \<Rightarrow>
               map_option RTensor (binop (\<lambda>x y. if x < y then 1 else 0) a b)
           | _ \<Rightarrow> None)
      | AtenTensorOp \<Rightarrow>
          (case vs of
             RList d # _ \<Rightarrow>
               map_option (\<lambda>ints. RTensor \<lparr>tshape = [length ints], tdata = ints\<rparr>) (intList d)
           | _ \<Rightarrow> None)
      | AtenWhereSelfOp \<Rightarrow>
          (case vs of
             [RTensor c, RTensor x, RTensor y] \<Rightarrow> map_option RTensor (whereSelf c x y)
           | _ \<Rightarrow> None)
      | _ \<Rightarrow> None)"

text \<open>
  The value of an SSA value: a run-time input for \<open>Arg\<close>, the operation applied to the
  values of its operands for \<open>Res\<close>. Operands must have been created earlier.
\<close>

definition precedes :: "Value \<Rightarrow> nat \<Rightarrow> bool" where
  "precedes v n = (case v of Arg _ _ \<Rightarrow> True | Res m _ \<Rightarrow> m < n)"

function evalValue :: "operation list \<Rightarrow> (nat \<Rightarrow> rvalue option) \<Rightarrow> Value \<Rightarrow> rvalue option" where
  "evalValue ops inp (Arg i t) = inp i"
| "evalValue ops inp (Res n t) =
     (if n < length ops
      then (case those (map (\<lambda>v. if precedes v n then evalValue ops inp v else None)
                          (args (ops ! n))) of
              None \<Rightarrow> None
            | Some vs \<Rightarrow> evalOp (kind (ops ! n)) vs)
      else None)"
  by pat_completeness auto
termination
  by (relation "measure (\<lambda>(ops, inp, v). case v of Arg _ _ \<Rightarrow> 0 | Res n _ \<Rightarrow> Suc n)")
     (auto simp: precedes_def split: Value.splits)


definition rotaryPositionIds :: "operation list \<Rightarrow> Value list" where
  "rotaryPositionIds ops =
     map (\<lambda>x. args x ! 1) (filter (\<lambda>x. kind x = OnnxVariantRotaryEmbeddingOp) ops)"

text \<open>
  Reading the emitted graph: \<open>isCatOf rw v x y d\<close> says that \<open>v\<close> is the result of an
  \<^verbatim>\<open>aten.cat\<close> of the list \<open>[x, y]\<close> along dimension \<open>d\<close>; \<open>definingKind\<close> and
  \<open>definingArg\<close> are the kind and the first operand of the operation that defines a
  value; \<open>attentionOperands\<close> are the operands of the attention operation.
\<close>

definition isCatOf :: "rewriter \<Rightarrow> Value \<Rightarrow> Value \<Rightarrow> Value \<Rightarrow> int \<Rightarrow> bool" where
  "isCatOf rw v x y d =
     (case definingOp rw v of
        None \<Rightarrow> False
      | Some c \<Rightarrow>
          kind c = AtenCatOp \<and>
          (case args c of
             [l, dv] \<Rightarrow>
               (case definingOp rw l of
                  None \<Rightarrow> False
                | Some lo \<Rightarrow> kind lo = PrimListConstructOp \<and> args lo = [x, y]) \<and>
               (case definingOp rw dv of
                  None \<Rightarrow> False
                | Some dc \<Rightarrow> kind dc = ConstantIntOp d)
           | _ \<Rightarrow> False))"

definition definingKind :: "rewriter \<Rightarrow> Value \<Rightarrow> opkind option" where
  "definingKind rw v = map_option kind (definingOp rw v)"

definition definingArg :: "rewriter \<Rightarrow> Value \<Rightarrow> Value option" where
  "definingArg rw v =
     (case definingOp rw v of
        None \<Rightarrow> None
      | Some c \<Rightarrow> (case args c of [] \<Rightarrow> None | x # _ \<Rightarrow> Some x))"

definition attentionOperands :: "operation list \<Rightarrow> Value list" where
  "attentionOperands ops =
     concat (map args (filter (\<lambda>x. kind x = AtenScaledDotProductAttentionOp) ops))"

text \<open>
  \<open>extends rw rw'\<close>: the rewriter \<open>rw'\<close> is \<open>rw\<close> with operations appended; the matched
  operation has been replaced in the one exactly when it has been in the other.
\<close>

definition extends :: "rewriter \<Rightarrow> rewriter \<Rightarrow> bool" where
  "extends rw rw' =
     (replacement rw' = replacement rw \<and> (\<exists>ops. created rw' = created rw @ ops))"

section \<open>The finalizing type conversion pass\<close>

text \<open>
  The pass of \<^verbatim>\<open>BackendTypeConversionPasses.cpp\<close> runs on a function: its dialect
  attributes and the operations of its body, in order. An operation has an identifier, a
  name, operands and one result type; \<open>Res n t\<close> is here the result of the operation with
  identifier \<open>n\<close>, \<open>Arg n t\<close> an argument of the function.
\<close>

datatype irOpName =
    ToBuiltinTensorOp | FromBuiltinTensorOp | FromI1Op | ToI1Op | FromI64Op | ToI64Op
  | FromF64Op | ToF64Op | I64ToGeneratorOp | GeneratorToI64Op
  | ExtFOp | TruncFOp
  | NamedOp string

record irOperation =
  irId :: nat
  irName :: irOpName
  irOperands :: "Value list"
  irType :: ty

record funcOp =
  funcDialectAttrs :: "(string \<times> attr) list"
  funcBody :: "irOperation list"

subsection \<open>Type converter and conversion target\<close>

text \<open>
  Modelled from the spec: the \<^verbatim>\<open>TypeConverter\<close> and the \<^verbatim>\<open>ConversionTarget\<close> of the host
  framework, which are not among the sources. The converter is a list of type mappings,
  the most recently added first, and a type is legal when it is mapped to itself ("a
  mapping from source types to target types"). The target is "a dynamic predicate over
  operations": an action declared for a name decides, the latest declaration first;
  an operation of a name without action is judged by the predicate given for unknown
  operations.
\<close>

record typeConverter =
  conversions :: "(ty \<Rightarrow> ty option) list"

definition addConversion :: "(ty \<Rightarrow> ty option) \<Rightarrow> typeConverter \<Rightarrow> typeConverter" where
  "addConversion f tc = tc\<lparr>conversions := f # conversions tc\<rparr>"

fun convertTypeWith :: "(ty \<Rightarrow> ty option) list \<Rightarrow> ty \<Rightarrow> ty option" where
  "convertTypeWith [] t = None"
| "convertTypeWith (f # fs) t = (case f t of Some t' \<Rightarrow> Some t' | None \<Rightarrow> convertTypeWith fs t)"

definition isLegalType :: "typeConverter \<Rightarrow> ty \<Rightarrow> bool" where
  "isLegalType tc t = (convertTypeWith (conversions tc) t = Some t)"

text \<open>\<^verbatim>\<open>typeConverter.isLegal(op)\<close>: the operand types and the result types are legal.\<close>

definition isLegalOp :: "typeConverter \<Rightarrow> irOperation \<Rightarrow> bool" where
  "isLegalOp tc op =
     (list_all (\<lambda>v. isLegalType tc (getType v)) (irOperands op) \<and> isLegalType tc (irType op))"

datatype legalizationAction = Legal | Illegal

record conversionTarget =
  opActions :: "(irOpName \<times> legalizationAction) list"
  unknownOpLegality :: "(irOperation \<Rightarrow> bool) option"

definition addIllegalOp :: "irOpName \<Rightarrow> conversionTarget \<Rightarrow> conversionTarget" where
  "addIllegalOp n target = target\<lparr>opActions := (n, Illegal) # opActions target\<rparr>"

definition markUnknownOpDynamicallyLegal ::
  "(irOperation \<Rightarrow> bool) \<Rightarrow> conversionTarget \<Rightarrow> conversionTarget" where
  "markUnknownOpDynamicallyLegal f target = target\<lparr>unknownOpLegality := Some f\<rparr>"

definition isLegal :: "conversionTarget \<Rightarrow> irOperation \<Rightarrow> bool" where
  "isLegal target op =
     (case map_of (opActions target) (irName op) of
        Some Legal \<Rightarrow> True
      | Some Illegal \<Rightarrow> False
      | None \<Rightarrow> (case unknownOpLegality target of Some f \<Rightarrow> f op | None \<Rightarrow> False))"

subsection \<open>The patterns of the pass\<close>

text \<open>
  A pattern is given the operation and, for a conversion pattern, its operands as the
  driver has remapped them; it yields the value that replaces the operation, or \<open>None\<close>
  when it does not match.
\<close>

type_synonym conversionPattern = "irOperation \<Rightarrow> Value list \<Rightarrow> Value option"

text \<open>
  \<^verbatim>\<open>FinalizeMaterialization\<close> (lines 150-161):
  \<^verbatim>\<open>rewriter.replaceOp(op, adaptor.getOperands()[0])\<close>. The operations it is registered
  for have one operand; \<open>None\<close> stands for the read of \<^verbatim>\<open>getOperands()[0]\<close> on an
  operation without operands.
\<close>

definition FinalizeMaterialization :: conversionPattern where
  "FinalizeMaterialization op adaptorOperands =
     (case adaptorOperands of
        [] \<Rightarrow> None
      | v # _ \<Rightarrow> Some v)"

text \<open>
  \<^verbatim>\<open>setupFinalization\<close> (lines 164-179): for each operation type of the template pack,
  \<^verbatim>\<open>target.addIllegalOp<OpTy>()\<close> and \<^verbatim>\<open>patterns.add<FinalizeMaterialization<OpTy>>\<close>.
  The type converter that the pattern is built with acts through the operands that the
  driver hands to it.
\<close>

fun setupFinalization ::
  "irOpName list \<Rightarrow> conversionTarget \<times> (irOpName \<times> conversionPattern) list \<Rightarrow>
   conversionTarget \<times> (irOpName \<times> conversionPattern) list" where
  "setupFinalization [] (target, patterns) = (target, patterns)"
| "setupFinalization (opTy # opTys) (target, patterns) =
     setupFinalization opTys
       (addIllegalOp opTy target, patterns @ [(opTy, FinalizeMaterialization)])"

text \<open>The template arguments of the call of lines 216-218.\<close>

definition materializationOps :: "irOpName list" where
  "materializationOps =
     [ToBuiltinTensorOp, FromBuiltinTensorOp, FromI1Op, ToI1Op, FromI64Op, ToI64Op,
      FromF64Op, ToF64Op, I64ToGeneratorOp, GeneratorToI64Op]"

text \<open>\<^verbatim>\<open>Value::getDefiningOp\<close> among the operations given.\<close>

definition getDefiningOp :: "irOperation list \<Rightarrow> Value \<Rightarrow> irOperation option" where
  "getDefiningOp ops v =
     (case v of
        Arg _ _ \<Rightarrow> None
      | Res n _ \<Rightarrow> find (\<lambda>op. irId op = n) ops)"

text \<open>
  \<^verbatim>\<open>ExtFTruncFPattern\<close> (lines 33-49), a rewrite pattern on \<^verbatim>\<open>arith.truncf\<close>: when the
  operand is defined by an \<^verbatim>\<open>arith.extf\<close> whose own operand has the type of the
  \<^verbatim>\<open>truncf\<close>, the \<^verbatim>\<open>truncf\<close> is replaced by that operand.
\<close>

definition ExtFTruncFPattern :: "irOperation list \<Rightarrow> irOperation \<Rightarrow> Value option" where
  "ExtFTruncFPattern defs truncf =
     (case irOperands truncf of
        [operand] \<Rightarrow>
          (case getDefiningOp defs operand of
             None \<Rightarrow> None
           | Some extf \<Rightarrow>
               (if irName extf \<noteq> ExtFOp then None
                else (case irOperands extf of
                        [parentOperand] \<Rightarrow>
                          (if irType truncf \<noteq> getType parentOperand then None
                           else Some parentOperand)
                      | _ \<Rightarrow> None)))
      | _ \<Rightarrow> None)"

text \<open>
  \<^verbatim>\<open>stripTorchAttrs\<close> (lines 181-194): the loop over the dialect attributes, then
  \<^verbatim>\<open>setDialectAttrs\<close> when an attribute has been dropped.
\<close>

definition starts_with :: "string \<Rightarrow> string \<Rightarrow> bool" where
  "starts_with s p = (take (length p) s = p)"

fun stripTorchAttrsLoop ::
  "(string \<times> attr) list \<Rightarrow> bool \<Rightarrow> (string \<times> attr) list \<Rightarrow> bool \<times> (string \<times> attr) list" where
  "stripTorchAttrsLoop [] modified newAttrs = (modified, newAttrs)"
| "stripTorchAttrsLoop (attr # attrs) modified newAttrs =
     (if starts_with (fst attr) ''torch.''
      then stripTorchAttrsLoop attrs True newAttrs
      else stripTorchAttrsLoop attrs modified (newAttrs @ [attr]))"

definition stripTorchAttrs :: "funcOp \<Rightarrow> funcOp" where
  "stripTorchAttrs func =
     (case stripTorchAttrsLoop (funcDialectAttrs func) False [] of
        (modified, newAttrs) \<Rightarrow>
          (if modified then func\<lparr>funcDialectAttrs := newAttrs\<rparr> else func))"

subsection \<open>The drivers\<close>

text \<open>
  Modelled from the spec: the conversion driver of the host framework
  (\<^verbatim>\<open>applyFullConversion\<close>, not among the sources), reduced to what the spec says of it.
  The operations are visited in order, each with its operands remapped through the
  replacements made so far. A legal operation stays; an illegal one is given to the
  pattern registered for its name, which replaces it by a value. The conversion fails
  ("after all patterns applied, some operation remains illegal") when an illegal
  operation has no pattern or its pattern does not match; a failed conversion leaves the
  function as it was. The type materializations of the driver are left out ("once a
  program is finalized, no materialization callback is ever invoked").
\<close>

fun substValue :: "(nat \<times> Value) list \<Rightarrow> Value \<Rightarrow> Value" where
  "substValue mapping (Arg n t) = Arg n t"
| "substValue mapping (Res n t) = (case map_of mapping n of Some v \<Rightarrow> v | None \<Rightarrow> Res n t)"

fun legalize ::
  "conversionTarget \<Rightarrow> (irOpName \<times> conversionPattern) list \<Rightarrow> (nat \<times> Value) list \<Rightarrow>
   irOperation list \<Rightarrow> irOperation list \<Rightarrow> irOperation list option" where
  "legalize target patterns mapping converted [] = Some converted"
| "legalize target patterns mapping converted (op # ops) =
     (let remapped = op\<lparr>irOperands := map (substValue mapping) (irOperands op)\<rparr>
      in if isLegal target remapped
         then legalize target patterns mapping (converted @ [remapped]) ops
         else (case map_of patterns (irName op) of
                 None \<Rightarrow> None
               | Some pattern \<Rightarrow>
                   (case pattern op (irOperands remapped) of
                      None \<Rightarrow> None
                    | Some v \<Rightarrow>
                        legalize target patterns ((irId op, v) # mapping) converted ops)))"

definition applyFullConversion ::
  "funcOp \<Rightarrow> conversionTarget \<Rightarrow> (irOpName \<times> conversionPattern) list \<Rightarrow> bool \<times> funcOp" where
  "applyFullConversion func target patterns =
     (case legalize target patterns [] [] (funcBody func) of
        None \<Rightarrow> (False, func)
      | Some ops \<Rightarrow> (True, func\<lparr>funcBody := ops\<rparr>))"

text \<open>
  Modelled from the spec: the greedy driver of the host framework
  (\<^verbatim>\<open>applyPatternsGreedily\<close>, not among the sources) with the one pattern of the pass,
  "a small cleanup rewrite that folds a widen-then-narrow floating conversion pair". The
  operations are visited in order, definitions before uses, so that one traversal
  reaches the fixed point; the driver's own folding and its removal of unused operations
  are left out. It always converges.
\<close>

fun greedyRewrite ::
  "(nat \<times> Value) list \<Rightarrow> irOperation list \<Rightarrow> irOperation list \<Rightarrow> irOperation list" where
  "greedyRewrite mapping visited [] = visited"
| "greedyRewrite mapping visited (op # ops) =
     (let remapped = op\<lparr>irOperands := map (substValue mapping) (irOperands op)\<rparr>
      in (case (if irName op = TruncFOp then ExtFTruncFPattern visited remapped else None) of
            Some v \<Rightarrow> greedyRewrite ((irId op, v) # mapping) visited ops
          | None \<Rightarrow> greedyRewrite mapping (visited @ [remapped]) ops))"

definition applyPatternsGreedily :: "funcOp \<Rightarrow> bool \<times> funcOp" where
  "applyPatternsGreedily func = (True, func\<lparr>funcBody := greedyRewrite [] [] (funcBody func)\<rparr>)"

subsection \<open>The pass\<close>

text \<open>
  Lines 207-228 of \<^verbatim>\<open>FinalizingBackendTypeConversionPass::runOnOperation\<close>: the type
  converter with the identity conversion, the target and the patterns.
  \<^verbatim>\<open>TorchConversion::setupBackendTypeConversion\<close> (\<^verbatim>\<open>BackendTypeConversion.cpp\<close>, not
  among the sources) is a parameter: it is given the target and the type converter and
  returns them configured.
\<close>

definition finalizingSetup ::
  "(conversionTarget \<times> typeConverter \<Rightarrow> conversionTarget \<times> typeConverter) \<Rightarrow>
   conversionTarget \<times> (irOpName \<times> conversionPattern) list" where
  "finalizingSetup setupBackendTypeConversion =
     (let typeConverter = \<lparr>conversions = []\<rparr>;
          patterns = [];
          target = \<lparr>opActions = [], unknownOpLegality = None\<rparr>;
          typeConverter = addConversion (\<lambda>t. Some t) typeConverter;
          (target, typeConverter) = setupBackendTypeConversion (target, typeConverter);
          (target, patterns) = setupFinalization materializationOps (target, patterns);
          target = markUnknownOpDynamicallyLegal (isLegalOp typeConverter) target
      in (target, patterns))"

text \<open>
  \<^verbatim>\<open>runOnOperation\<close> (lines 203-240). \<^verbatim>\<open>signalPassFailure()\<close> sets a flag and the pass
  goes on: the cleanup and the stripping of the attributes run after a failed
  conversion too. The result is the flag and the function.
\<close>

definition FinalizingBackendTypeConversionPass ::
  "(conversionTarget \<times> typeConverter \<Rightarrow> conversionTarget \<times> typeConverter) \<Rightarrow>
   funcOp \<Rightarrow> bool \<times> funcOp" where
  "FinalizingBackendTypeConversionPass setupBackendTypeConversion func =
     (let (target, patterns) = finalizingSetup setupBackendTypeConversion;
          (converted, func) = applyFullConversion func target patterns;
          passFailed = \<not> converted;
          (converged, func) = applyPatternsGreedily func;
          passFailed = (passFailed \<or> \<not> converged);
          func = stripTorchAttrs func
      in (passFailed, func))"

section \<open>Concrete helpers and records\<close>

text \<open>
  Modelled from the spec: an instance of the helpers of \<^verbatim>\<open>Utils.cpp\<close> (not among the
  sources), used only to run the rules on concrete records. The transposition swaps two
  dimensions of a tensor with sizes ("transpose the last two dimensions of either
  operand"); the extraction of quantization arguments accepts a scale and a zero point of
  per-tensor granularity only ("rank-0 or single-element") and reads each as a scalar;
  the dequantization needs an input with sizes and yields a float tensor of the same
  sizes.
\<close>

definition perTensor :: "ty \<Rightarrow> bool" where
  "perTensor t =
     (case getOptionalSizes t of
        None \<Rightarrow> False
      | Some sizes \<Rightarrow> list_all (\<lambda>d. d = 1) sizes)"

definition specUtils :: utils where
  "specUtils =
     \<lparr>createTorchTransposeOp = (\<lambda>x dimA dimB n.
        (case getOptionalSizes (getType x) of
           None \<Rightarrow> (None, [])
         | Some sizes \<Rightarrow>
             (if 0 \<le> dimA \<and> dimA < int (length sizes) \<and>
                 0 \<le> dimB \<and> dimB < int (length sizes)
              then (let t = ValueTensorType
                              (Some (sizes[nat dimA := sizes ! nat dimB,
                                           nat dimB := sizes ! nat dimA]))
                              (getOptionalDtype (getType x))
                    in (Some (Res (n + 2) t),
                        [\<lparr>kind = ConstantIntOp dimA, args = [], resTy = IntType\<rparr>,
                         \<lparr>kind = ConstantIntOp dimB, args = [], resTy = IntType\<rparr>,
                         \<lparr>kind = OtherOp ''torch.aten.transpose.int'',
                          args = [x, Res n IntType, Res (n + 1) IntType], resTy = t\<rparr>]))
              else (None, [])))),
      extractPerTensorQuantizationArguments = (\<lambda>inScale inZeroPoint n.
        (if perTensor (getType inScale) \<and> perTensor (getType inZeroPoint)
         then (Some (Res n FloatType, Res (n + 1) IntType),
               [\<lparr>kind = AtenItemOp, args = [inScale], resTy = FloatType\<rparr>,
                \<lparr>kind = AtenItemOp, args = [inZeroPoint], resTy = IntType\<rparr>])
         else (None, []))),
      createDequantizeTensor = (\<lambda>input scale zeroPoint n.
        (case getOptionalSizes (getType input) of
           None \<Rightarrow> (None, [])
         | Some sizes \<Rightarrow>
             (let t = ValueTensorType (Some sizes) (Some F32Type)
              in (Some (Res n t),
                  [\<lparr>kind = OtherOp ''torch.aten.dequantize'',
                    args = [input, scale, zeroPoint], resTy = t\<rparr>])))),
      getQTorchTypeFromTorchIntType = (\<lambda>t.
        (case t of
           ValueTensorType sizes (Some (IntegerType w s)) \<Rightarrow>
             Some (ValueTensorType sizes (Some (OtherDtype ''quantized'')))
         | _ \<Rightarrow> None)),
      getScalarTypeForType = (\<lambda>d. 0)\<rparr>"

definition emptyRewriter :: rewriter where
  "emptyRewriter = \<lparr>created = [], replacement = None\<rparr>"

definition f32Tensor :: "int list \<Rightarrow> ty" where
  "f32Tensor sizes = ValueTensorType (Some sizes) (Some F32Type)"

text \<open>
  A FusedMatMul record on operands of sizes \<open>2\<times>3\<times>4\<close> and \<open>2\<times>3\<times>5\<close>, with the given
  \<^verbatim>\<open>transA\<close> and \<^verbatim>\<open>transBatchA\<close>; and one with a single operand.
\<close>

definition fusedMatMulExample :: "int \<Rightarrow> int \<Rightarrow> source_op" where
  "fusedMatMulExample transA transBatchA =
     \<lparr>opOperands = [Arg 0 (f32Tensor [2, 3, 4]), Arg 1 (f32Tensor [2, 3, 5])],
      opAttrs = [(''torch.onnx.transA'', IntegerAttr transA),
                 (''torch.onnx.transBatchA'', IntegerAttr transBatchA)],
      opResultTypes = [f32Tensor [2, 4, 5]],
      opNumRegions = 0\<rparr>"

definition fusedMatMulOneOperand :: source_op where
  "fusedMatMulOneOperand =
     \<lparr>opOperands = [Arg 0 (f32Tensor [2, 3, 4])],
      opAttrs = [(''torch.onnx.transBatchA'', IntegerAttr 1)],
      opResultTypes = [f32Tensor [2, 4, 5]],
      opNumRegions = 0\<rparr>"

text \<open>
  A GroupQueryAttention record on a query of sizes \<open>batch \<times> seq \<times> hidden\<close> with an empty
  cache, and run-time values for \<^verbatim>\<open>seqlens_k\<close> (operand 5) and
  \<^verbatim>\<open>total_sequence_length\<close> (operand 6).
\<close>

definition si :: "nat \<Rightarrow> int list \<Rightarrow> ty" where
  "si w sizes = ValueTensorType (Some sizes) (Some (IntegerType w Signed))"

definition gqaExample :: "int \<Rightarrow> int \<Rightarrow> int \<Rightarrow> int \<Rightarrow> int \<Rightarrow> source_op" where
  "gqaExample doRotary batch seq hidden numHeads =
     \<lparr>opOperands =
        [Arg 0 (f32Tensor [batch, seq, hidden]), Arg 1 (f32Tensor [batch, seq, hidden]),
         Arg 2 (f32Tensor [batch, seq, hidden]),
         Arg 3 (f32Tensor [batch, numHeads, 0, hidden sdiv numHeads]),
         Arg 4 (f32Tensor [batch, numHeads, 0, hidden sdiv numHeads]),
         Arg 5 (si 32 [batch]), Arg 6 (si 32 []),
         Arg 7 (f32Tensor [16, 2]), Arg 8 (f32Tensor [16, 2])],
      opAttrs = [(''torch.onnx.do_rotary'', IntegerAttr doRotary),
                 (''torch.onnx.kv_num_heads'', IntegerAttr numHeads),
                 (''torch.onnx.num_heads'', IntegerAttr numHeads)],
      opResultTypes =
        [f32Tensor [batch, seq, hidden],
         f32Tensor [batch, numHeads, seq, hidden sdiv numHeads],
         f32Tensor [batch, numHeads, 0, hidden sdiv numHeads]],
      opNumRegions = 0\<rparr>"

definition gqaInputs :: "int list \<Rightarrow> int \<Rightarrow> nat \<Rightarrow> rvalue option" where
  "gqaInputs seqlensK totalLen =
     (\<lambda>i. if i = 5 then Some (RTensor \<lparr>tshape = [length seqlensK], tdata = seqlensK\<rparr>)
          else if i = 6 then Some (RTensor \<lparr>tshape = [], tdata = [totalLen]\<rparr>)
          else None)"

text \<open>
  A QLinearGlobalAveragePool record on an input of rank two, a QLinearConcat record with
  three operands, and a GroupQueryAttention record with \<^verbatim>\<open>kv_num_heads = 0\<close>.
\<close>

definition ui8 :: "int list \<Rightarrow> ty" where
  "ui8 sizes = ValueTensorType (Some sizes) (Some (IntegerType 8 Unsigned))"


definition concatThreeOperands :: source_op where
  "concatThreeOperands =
     \<lparr>opOperands = [Arg 0 (f32Tensor []), Arg 1 (ui8 []), Arg 2 (ui8 [2, 3])],
      opAttrs = [],
      opResultTypes = [ui8 [2, 3]],
      opNumRegions = 0\<rparr>"


text \<open>
  Modelled from the spec: an instance of \<^verbatim>\<open>setupBackendTypeConversion\<close>
  (\<^verbatim>\<open>BackendTypeConversion.cpp\<close>, not among the sources), used only to run the pass on
  concrete functions. It maps the Torch types to builtin types and declares the bridging
  operations legal, as they are before the finalizing pass ("or once it is a bridging
  operation (temporarily legal)").
\<close>

definition specBackendTypeConversion ::
  "conversionTarget \<times> typeConverter \<Rightarrow> conversionTarget \<times> typeConverter" where
  "specBackendTypeConversion = (\<lambda>(target, typeConverter).
     (target\<lparr>opActions := map (\<lambda>n. (n, Legal)) materializationOps @ opActions target\<rparr>,
      addConversion (\<lambda>t. (case t of
                            ValueTensorType _ _ \<Rightarrow> Some (OtherType ''tensor'')
                          | IntType \<Rightarrow> Some (OtherType ''i64'')
                          | FloatType \<Rightarrow> Some (OtherType ''f64'')
                          | BoolType \<Rightarrow> Some (OtherType ''i1'')
                          | _ \<Rightarrow> None)) typeConverter))"

text \<open>
  Three functions. In the first a bridging operation converts the result of a Torch
  operation that has stayed in the program. The second has no bridging operation: it
  widens its argument from \<^verbatim>\<open>f32\<close> to \<^verbatim>\<open>f64\<close>, narrows it back and negates the result;
  it carries a \<^verbatim>\<open>torch.\<close> attribute and another one. The third has no bridging operation
  and one Torch operation.
\<close>

definition strandedFunc :: funcOp where
  "strandedFunc =
     \<lparr>funcDialectAttrs = [],
      funcBody =
        [\<lparr>irId = 0, irName = NamedOp ''torch.aten.relu'',
          irOperands = [Arg 0 (f32Tensor [2])], irType = f32Tensor [2]\<rparr>,
         \<lparr>irId = 1, irName = ToBuiltinTensorOp,
          irOperands = [Res 0 (f32Tensor [2])], irType = OtherType ''tensor''\<rparr>,
         \<lparr>irId = 2, irName = NamedOp ''func.return'',
          irOperands = [Res 1 (OtherType ''tensor'')], irType = OtherType ''none''\<rparr>]\<rparr>"

definition extfTruncfFunc :: funcOp where
  "extfTruncfFunc =
     \<lparr>funcDialectAttrs =
        [(''torch.assume_strict_symbolic_shapes'', OtherAttr ''unit''),
         (''llvm.emit_c_interface'', OtherAttr ''unit'')],
      funcBody =
        [\<lparr>irId = 0, irName = ExtFOp,
          irOperands = [Arg 0 (OtherType ''f32'')], irType = OtherType ''f64''\<rparr>,
         \<lparr>irId = 1, irName = TruncFOp,
          irOperands = [Res 0 (OtherType ''f64'')], irType = OtherType ''f32''\<rparr>,
         \<lparr>irId = 2, irName = NamedOp ''arith.negf'',
          irOperands = [Res 1 (OtherType ''f32'')], irType = OtherType ''f32''\<rparr>]\<rparr>"

definition torchOpFunc :: funcOp where
  "torchOpFunc =
     \<lparr>funcDialectAttrs = [],
      funcBody =
        [\<lparr>irId = 0, irName = NamedOp ''torch.aten.relu'',
          irOperands = [Arg 0 (f32Tensor [2])], irType = f32Tensor [2]\<rparr>]\<rparr>"

definition negfFunc :: funcOp where
  "negfFunc =
     \<lparr>funcDialectAttrs =
        [(''torch.assume_strict_symbolic_shapes'', OtherAttr ''unit''),
         (''llvm.emit_c_interface'', OtherAttr ''unit'')],
      funcBody =
        [\<lparr>irId = 0, irName = NamedOp ''arith.negf'',
          irOperands = [Arg 0 (OtherType ''f32'')], irType = OtherType ''f32''\<rparr>]\<rparr>"


section \<open>Properties of FusedMatMul\<close>

lemma FusedMatMul_transA:
  assumes "tensorOperands op 2 = Some [lhs, rhs]"
    and "s64IntegerAttr op ''transA'' 0 = Some transA"
    and "s64IntegerAttr op ''transB'' 0 = Some 0"
    and "s64IntegerAttr op ''transBatchA'' 0 = Some 0"
    and "s64IntegerAttr op ''transBatchB'' 0 = Some 0"
    and "tensorResultType op = Some resultType"
    and "transA \<noteq> 0"
    and "getTensorRank lhs = Some lhsRank" and "2 \<le> lhsRank" and "int lhsRank < 2 ^ 32"
    and "createTorchTransposeOp u lhs (int lhsRank - 2) (int lhsRank - 1)
           (length (created rw)) = (Some transposedLhs, ops)"
  shows "FusedMatMul u op rw =
           (Success,
            rw\<lparr>created := created rw @ ops @
                   [\<lparr>kind = AtenMatmulOp, args = [transposedLhs, rhs],
                     resTy = resultType\<rparr>],
               replacement := Some [Res (length (created rw) + length ops) resultType]\<rparr>)"
  using assms
  by (simp add: FusedMatMul_def call_def unsigned32_def replaceOpWithNewOp_def create_def
      replaceOp_def)

lemma FusedMatMul_transBatch_fails:
  assumes "s64IntegerAttr op ''transBatchA'' 0 \<noteq> Some 0 \<or>
           s64IntegerAttr op ''transBatchB'' 0 \<noteq> Some 0"
  shows "(\<exists>r. fst (FusedMatMul u op rw) = Failure r) \<and>
         replacement (snd (FusedMatMul u op rw)) = replacement rw"
  using assms
  by (auto simp add: FusedMatMul_def call_def notifyMatchFailure_def failure_def
      split: option.splits list.splits prod.splits sum.splits if_splits)

lemma FusedMatMul_transBatch_diagnostic:
  assumes "tensorOperands op 2 = Some [lhs, rhs]"
    and "s64IntegerAttr op ''transA'' 0 = Some 0"
    and "s64IntegerAttr op ''transB'' 0 = Some 0"
    and "s64IntegerAttr op ''transBatchA'' 0 = Some transBatchA"
    and "s64IntegerAttr op ''transBatchB'' 0 = Some transBatchB"
    and "tensorResultType op = Some resultType"
    and "transBatchA \<noteq> 0 \<or> transBatchB \<noteq> 0"
  shows "FusedMatMul u op rw =
           (Failure (Some (''Unimplemented: support not present for '' @
                           ''transBatchA and transBatchB attribute'')), rw)"
  using assms
  by (auto simp add: FusedMatMul_def notifyMatchFailure_def)

lemma FusedMatMul_transBatch_unimplemented:
  assumes "tensorOperands op 2 = Some [lhs, rhs]"
    and "s64IntegerAttr op ''transA'' 0 = Some transA"
    and "s64IntegerAttr op ''transB'' 0 = Some transB"
    and "s64IntegerAttr op ''transBatchA'' 0 = Some transBatchA"
    and "s64IntegerAttr op ''transBatchB'' 0 = Some transBatchB"
    and "tensorResultType op = Some resultType"
    and "transBatchA \<noteq> 0 \<or> transBatchB \<noteq> 0"
    and "if transA \<noteq> 0
         then getTensorRank lhs = Some lhsRank \<and>
              createTorchTransposeOp u lhs (unsigned32 (int lhsRank - 2))
                (unsigned32 (int lhsRank - 1)) (length (created rw)) =
                (Some transposedLhs, opsA)
         else opsA = []"
    and "if transB \<noteq> 0
         then getTensorRank rhs = Some rhsRank \<and>
              createTorchTransposeOp u rhs (unsigned32 (int rhsRank - 2))
                (unsigned32 (int rhsRank - 1)) (length (created rw) + length opsA) =
                (Some transposedRhs, opsB)
         else opsB = []"
  shows "FusedMatMul u op rw =
           (Failure (Some (''Unimplemented: support not present for '' @
                           ''transBatchA and transBatchB attribute'')),
            rw\<lparr>created := created rw @ opsA @ opsB\<rparr>)"
  using assms
  by (cases "transA = 0"; cases "transB = 0")
     (auto simp add: FusedMatMul_def call_def notifyMatchFailure_def)

lemma FusedMatMul_binds_diagnostic:
  assumes "tensorOperands op 2 = Some [lhs, rhs]"
    and "s64IntegerAttr op ''transA'' 0 = Some transA"
    and "s64IntegerAttr op ''transB'' 0 = Some transB"
    and "s64IntegerAttr op ''transBatchA'' 0 = Some transBatchA"
    and "s64IntegerAttr op ''transBatchB'' 0 = Some transBatchB"
    and "tensorResultType op = Some resultType"
    and "transBatchA \<noteq> 0 \<or> transBatchB \<noteq> 0"
  shows "\<exists>msg. fst (FusedMatMul u op rw) = Failure (Some msg)"
  using assms
  by (auto simp add: FusedMatMul_def call_def notifyMatchFailure_def
      split: option.splits prod.splits)

lemma FusedMatMul_bind_failure:
  assumes "(\<forall>lhs rhs. tensorOperands op 2 \<noteq> Some [lhs, rhs]) \<or>
           s64IntegerAttr op ''transA'' 0 = None \<or>
           s64IntegerAttr op ''transB'' 0 = None \<or>
           s64IntegerAttr op ''transBatchA'' 0 = None \<or>
           s64IntegerAttr op ''transBatchB'' 0 = None \<or>
           tensorResultType op = None"
  shows "FusedMatMul u op rw = (Failure None, rw)"
  using assms
  by (auto simp add: FusedMatMul_def failure_def split: option.splits list.splits)

text \<open>
  C9, as amended. With \<^verbatim>\<open>transA\<close> set and \<^verbatim>\<open>transB\<close>, \<^verbatim>\<open>transBatchA\<close>,
  \<^verbatim>\<open>transBatchB\<close> zero, on a left operand of rank at least two whose transposition
  succeeds, the rule transposes the last two axes of the left operand (dimensions
  \<open>rank - 2\<close> and \<open>rank - 1\<close>) and multiplies the result with the untouched right operand.
  A record that requests \<^verbatim>\<open>transBatchA\<close> or \<^verbatim>\<open>transBatchB\<close> always declines and never
  replaces the operation by a multiplication. When the record binds, the decline carries
  a diagnostic, and it is the explicit "Unimplemented" diagnostic whenever each requested
  transposition succeeds (the operations of the transpositions have been emitted by
  then). A record that does not bind declines through the bare \<^verbatim>\<open>failure()\<close>, without
  a diagnostic, whatever its attributes.
\<close>

theorem FusedMatMul_transposes_lhs_and_rejects_transBatch:
  "(tensorOperands op 2 = Some [lhs, rhs] \<and>
    s64IntegerAttr op ''transA'' 0 = Some transA \<and> transA \<noteq> 0 \<and>
    s64IntegerAttr op ''transB'' 0 = Some 0 \<and>
    s64IntegerAttr op ''transBatchA'' 0 = Some 0 \<and>
    s64IntegerAttr op ''transBatchB'' 0 = Some 0 \<and>
    tensorResultType op = Some resultType \<and>
    getTensorRank lhs = Some lhsRank \<and> 2 \<le> lhsRank \<and> int lhsRank < 2 ^ 32 \<and>
    createTorchTransposeOp u lhs (int lhsRank - 2) (int lhsRank - 1)
      (length (created rw)) = (Some transposedLhs, ops)
    \<longrightarrow> FusedMatMul u op rw =
          (Success,
           rw\<lparr>created := created rw @ ops @
                  [\<lparr>kind = AtenMatmulOp, args = [transposedLhs, rhs],
                    resTy = resultType\<rparr>],
              replacement := Some [Res (length (created rw) + length ops) resultType]\<rparr>))
   \<and>
   (s64IntegerAttr op2 ''transBatchA'' 0 \<noteq> Some 0 \<or>
    s64IntegerAttr op2 ''transBatchB'' 0 \<noteq> Some 0
    \<longrightarrow> (\<exists>r. fst (FusedMatMul u op2 rw) = Failure r) \<and>
        replacement (snd (FusedMatMul u op2 rw)) = replacement rw)
   \<and>
   (tensorOperands op3 2 = Some [lhs3, rhs3] \<and>
    s64IntegerAttr op3 ''transA'' 0 = Some transA3 \<and>
    s64IntegerAttr op3 ''transB'' 0 = Some transB3 \<and>
    s64IntegerAttr op3 ''transBatchA'' 0 = Some transBatchA \<and>
    s64IntegerAttr op3 ''transBatchB'' 0 = Some transBatchB \<and>
    tensorResultType op3 = Some resultType3 \<and>
    (transBatchA \<noteq> 0 \<or> transBatchB \<noteq> 0)
    \<longrightarrow> (\<exists>msg. fst (FusedMatMul u op3 rw) = Failure (Some msg)) \<and>
        ((if transA3 \<noteq> 0
          then getTensorRank lhs3 = Some lhsRank3 \<and>
               createTorchTransposeOp u lhs3 (unsigned32 (int lhsRank3 - 2))
                 (unsigned32 (int lhsRank3 - 1)) (length (created rw)) =
                 (Some transposedLhs3, opsA)
          else opsA = []) \<and>
         (if transB3 \<noteq> 0
          then getTensorRank rhs3 = Some rhsRank3 \<and>
               createTorchTransposeOp u rhs3 (unsigned32 (int rhsRank3 - 2))
                 (unsigned32 (int rhsRank3 - 1)) (length (created rw) + length opsA) =
                 (Some transposedRhs3, opsB)
          else opsB = [])
         \<longrightarrow> FusedMatMul u op3 rw =
               (Failure (Some (''Unimplemented: support not present for '' @
                               ''transBatchA and transBatchB attribute'')),
                rw\<lparr>created := created rw @ opsA @ opsB\<rparr>)))
   \<and>
   ((\<forall>lhs4 rhs4. tensorOperands op4 2 \<noteq> Some [lhs4, rhs4]) \<or>
    s64IntegerAttr op4 ''transA'' 0 = None \<or>
    s64IntegerAttr op4 ''transB'' 0 = None \<or>
    s64IntegerAttr op4 ''transBatchA'' 0 = None \<or>
    s64IntegerAttr op4 ''transBatchB'' 0 = None \<or>
    tensorResultType op4 = None
    \<longrightarrow> FusedMatMul u op4 rw = (Failure None, rw))"
  using FusedMatMul_transA [of op lhs rhs transA resultType lhsRank u rw transposedLhs ops]
    FusedMatMul_transBatch_fails [of op2 u rw]
    FusedMatMul_binds_diagnostic
      [where op = op3 and lhs = lhs3 and rhs = rhs3 and transA = transA3 and transB = transB3
         and transBatchA = transBatchA and transBatchB = transBatchB
         and resultType = resultType3 and u = u and rw = rw]
    FusedMatMul_transBatch_unimplemented
      [where op = op3 and lhs = lhs3 and rhs = rhs3 and transA = transA3 and transB = transB3
         and transBatchA = transBatchA and transBatchB = transBatchB
         and resultType = resultType3 and lhsRank = lhsRank3 and u = u and rw = rw
         and transposedLhs = transposedLhs3 and opsA = opsA and rhsRank = rhsRank3
         and transposedRhs = transposedRhs3 and opsB = opsB]
    FusedMatMul_bind_failure [where op = op4 and u = u and rw = rw]
  by blast

text \<open>
  The theorem at the records above: one with \<^verbatim>\<open>transA = 1\<close>, one with
  \<^verbatim>\<open>transBatchA = 1\<close>, one with both, and one with a single operand.
\<close>

theorem FusedMatMul_transposes_lhs_and_rejects_transBatch_witness:
  "FusedMatMul specUtils (fusedMatMulExample 1 0) emptyRewriter =
     (Success,
      \<lparr>created =
         [\<lparr>kind = ConstantIntOp 1, args = [], resTy = IntType\<rparr>,
          \<lparr>kind = ConstantIntOp 2, args = [], resTy = IntType\<rparr>,
          \<lparr>kind = OtherOp ''torch.aten.transpose.int'',
           args = [Arg 0 (f32Tensor [2, 3, 4]), Res 0 IntType, Res 1 IntType],
           resTy = f32Tensor [2, 4, 3]\<rparr>,
          \<lparr>kind = AtenMatmulOp,
           args = [Res 2 (f32Tensor [2, 4, 3]), Arg 1 (f32Tensor [2, 3, 5])],
           resTy = f32Tensor [2, 4, 5]\<rparr>],
       replacement = Some [Res 3 (f32Tensor [2, 4, 5])]\<rparr>) \<and>
   (\<exists>r. fst (FusedMatMul specUtils (fusedMatMulExample 1 1) emptyRewriter) = Failure r) \<and>
   replacement (snd (FusedMatMul specUtils (fusedMatMulExample 1 1) emptyRewriter)) = None \<and>
   (\<exists>msg. fst (FusedMatMul specUtils (fusedMatMulExample 1 1) emptyRewriter) =
      Failure (Some msg)) \<and>
   FusedMatMul specUtils (fusedMatMulExample 1 1) emptyRewriter =
     (Failure (Some (''Unimplemented: support not present for '' @
                     ''transBatchA and transBatchB attribute'')),
      \<lparr>created =
         [\<lparr>kind = ConstantIntOp 1, args = [], resTy = IntType\<rparr>,
          \<lparr>kind = ConstantIntOp 2, args = [], resTy = IntType\<rparr>,
          \<lparr>kind = OtherOp ''torch.aten.transpose.int'',
           args = [Arg 0 (f32Tensor [2, 3, 4]), Res 0 IntType, Res 1 IntType],
           resTy = f32Tensor [2, 4, 3]\<rparr>],
       replacement = None\<rparr>) \<and>
   FusedMatMul specUtils fusedMatMulOneOperand emptyRewriter = (Failure None, emptyRewriter)"
proof -
  let ?opA = "fusedMatMulExample 1 0" and ?opB = "fusedMatMulExample 1 1"
  let ?lhs = "Arg 0 (f32Tensor [2, 3, 4])" and ?rhs = "Arg 1 (f32Tensor [2, 3, 5])"
  let ?ops = "[\<lparr>kind = ConstantIntOp 1, args = [], resTy = IntType\<rparr>,
          \<lparr>kind = ConstantIntOp 2, args = [], resTy = IntType\<rparr>,
          \<lparr>kind = OtherOp ''torch.aten.transpose.int'',
           args = [?lhs, Res 0 IntType, Res 1 IntType],
           resTy = f32Tensor [2, 4, 3]\<rparr>]"
  have bindA: "tensorOperands ?opA 2 = Some [?lhs, ?rhs] \<and>
    s64IntegerAttr ?opA ''transA'' 0 = Some 1 \<and> (1::int) \<noteq> 0 \<and>
    s64IntegerAttr ?opA ''transB'' 0 = Some 0 \<and>
    s64IntegerAttr ?opA ''transBatchA'' 0 = Some 0 \<and>
    s64IntegerAttr ?opA ''transBatchB'' 0 = Some 0 \<and>
    tensorResultType ?opA = Some (f32Tensor [2, 4, 5]) \<and>
    getTensorRank ?lhs = Some 3 \<and> 2 \<le> (3::nat) \<and> int 3 < 2 ^ 32 \<and>
    createTorchTransposeOp specUtils ?lhs (int 3 - 2) (int 3 - 1)
      (length (created emptyRewriter)) = (Some (Res 2 (f32Tensor [2, 4, 3])), ?ops)"
    by (simp add: fusedMatMulExample_def emptyRewriter_def specUtils_def f32Tensor_def
      tensorOperands_def tensorOperandsList_def isValueTensor_def s64IntegerAttr_def
      tensorResultType_def getTensorRank_def Let_def)
  have bindB: "tensorOperands ?opB 2 = Some [?lhs, ?rhs] \<and>
    s64IntegerAttr ?opB ''transA'' 0 = Some 1 \<and>
    s64IntegerAttr ?opB ''transB'' 0 = Some 0 \<and>
    s64IntegerAttr ?opB ''transBatchA'' 0 = Some 1 \<and>
    s64IntegerAttr ?opB ''transBatchB'' 0 = Some 0 \<and>
    tensorResultType ?opB = Some (f32Tensor [2, 4, 5]) \<and>
    ((1::int) \<noteq> 0 \<or> (0::int) \<noteq> 0)"
    by (simp add: fusedMatMulExample_def f32Tensor_def
      tensorOperands_def tensorOperandsList_def isValueTensor_def s64IntegerAttr_def
      tensorResultType_def)
  have transposed: "(if (1::int) \<noteq> 0
          then getTensorRank ?lhs = Some 3 \<and>
               createTorchTransposeOp specUtils ?lhs (unsigned32 (int 3 - 2))
                 (unsigned32 (int 3 - 1)) (length (created emptyRewriter)) =
                 (Some (Res 2 (f32Tensor [2, 4, 3])), ?ops)
          else ?ops = []) \<and>
         (if (0::int) \<noteq> 0
          then getTensorRank ?rhs = Some 3 \<and>
               createTorchTransposeOp specUtils ?rhs (unsigned32 (int 3 - 2))
                 (unsigned32 (int 3 - 1)) (length (created emptyRewriter) + length ?ops) =
                 (Some ?rhs, [])
          else [] = ([] :: operation list))"
    by (simp add: emptyRewriter_def specUtils_def f32Tensor_def unsigned32_def
      getTensorRank_def Let_def)
  have req: "s64IntegerAttr ?opB ''transBatchA'' 0 \<noteq> Some 0 \<or>
    s64IntegerAttr ?opB ''transBatchB'' 0 \<noteq> Some 0"
    using bindB by simp
  have unbound: "(\<forall>lhs4 rhs4. tensorOperands fusedMatMulOneOperand 2 \<noteq> Some [lhs4, rhs4]) \<or>
    s64IntegerAttr fusedMatMulOneOperand ''transA'' 0 = None \<or>
    s64IntegerAttr fusedMatMulOneOperand ''transB'' 0 = None \<or>
    s64IntegerAttr fusedMatMulOneOperand ''transBatchA'' 0 = None \<or>
    s64IntegerAttr fusedMatMulOneOperand ''transBatchB'' 0 = None \<or>
    tensorResultType fusedMatMulOneOperand = None"
    by (simp add: fusedMatMulOneOperand_def tensorOperands_def)
  note inst = FusedMatMul_transposes_lhs_and_rejects_transBatch
    [where op = ?opA and lhs = ?lhs and rhs = ?rhs and transA = 1
       and resultType = "f32Tensor [2, 4, 5]" and lhsRank = 3 and u = specUtils
       and rw = emptyRewriter and transposedLhs = "Res 2 (f32Tensor [2, 4, 3])"
       and ops = ?ops and ?op2.0 = ?opB and ?op3.0 = ?opB and ?lhs3.0 = ?lhs
       and ?rhs3.0 = ?rhs and ?transA3.0 = 1 and ?transB3.0 = 0 and transBatchA = 1
       and transBatchB = 0 and ?resultType3.0 = "f32Tensor [2, 4, 5]" and ?lhsRank3.0 = 3
       and ?transposedLhs3.0 = "Res 2 (f32Tensor [2, 4, 3])" and opsA = ?ops
       and ?rhsRank3.0 = 3 and ?transposedRhs3.0 = ?rhs and opsB = "[]"
       and ?op4.0 = fusedMatMulOneOperand]
  from inst bindA have c1: "FusedMatMul specUtils ?opA emptyRewriter =
          (Success,
           emptyRewriter\<lparr>created := created emptyRewriter @ ?ops @
                  [\<lparr>kind = AtenMatmulOp, args = [Res 2 (f32Tensor [2, 4, 3]), ?rhs],
                    resTy = f32Tensor [2, 4, 5]\<rparr>],
              replacement := Some [Res (length (created emptyRewriter) + length ?ops) (f32Tensor [2, 4, 5])]\<rparr>)"
    by blast
  from inst req have c2: "(\<exists>r. fst (FusedMatMul specUtils ?opB emptyRewriter) = Failure r) \<and>
        replacement (snd (FusedMatMul specUtils ?opB emptyRewriter)) = replacement emptyRewriter"
    by blast
  from inst bindB have c3: "\<exists>msg. fst (FusedMatMul specUtils ?opB emptyRewriter) = Failure (Some msg)"
    by blast
  from inst bindB transposed have c4: "FusedMatMul specUtils ?opB emptyRewriter =
          (Failure (Some (''Unimplemented: support not present for '' @
                          ''transBatchA and transBatchB attribute'')),
           emptyRewriter\<lparr>created := created emptyRewriter @ ?ops @ []\<rparr>)"
    by blast
  from inst unbound have c5:
    "FusedMatMul specUtils fusedMatMulOneOperand emptyRewriter = (Failure None, emptyRewriter)"
    by blast
  show ?thesis
    using c1 c2 c3 c4 c5 by (simp add: emptyRewriter_def)
qed

text \<open>
  The claim as stated fails: a record that requests \<^verbatim>\<open>transBatchA\<close> but has one operand
  declines through the bare \<^verbatim>\<open>failure()\<close> of the binding step, with no diagnostic.
\<close>

theorem FusedMatMul_transBatch_counterexample:
  "s64IntegerAttr fusedMatMulOneOperand ''transBatchA'' 0 = Some 1 \<and>
   FusedMatMul specUtils fusedMatMulOneOperand emptyRewriter = (Failure None, emptyRewriter)"
  by (simp add: FusedMatMul_def fusedMatMulOneOperand_def s64IntegerAttr_def
      tensorOperands_def failure_def)

section \<open>Properties of GroupQueryAttention\<close>

text \<open>
  The operations of the rotary block, written out: \<open>n\<close> is the index of the first
  operation the block creates.
\<close>

lemma gqaRotaryEmbedding_run:
  assumes "n = length (created rw)"
  shows "gqaRotaryEmbedding operands batchSize sequenceLength rotaryInterleaved
           cstBatchSize cstSequenceLength cstNone cstFalse qInput kInput rw =
         (Res (n + 30) (getType qInput), Res (n + 31) (getType qInput),
          rw\<lparr>created := created rw @
               [\<lparr>kind = AtenItemOp, args = [operands ! 6], resTy = IntType\<rparr>,
                \<lparr>kind = ConstantIntOp 1, args = [], resTy = IntType\<rparr>,
                \<lparr>kind = AtenGtIntOp, args = [cstSequenceLength, Res (n + 1) IntType], resTy = BoolType\<rparr>,
                \<lparr>kind = AtenNeIntOp, args = [cstSequenceLength, Res n IntType], resTy = BoolType\<rparr>,
                \<lparr>kind = Aten__And__BoolOp, args = [Res (n + 2) BoolType, Res (n + 3) BoolType], resTy = BoolType\<rparr>,
                \<lparr>kind = ConstantIntOp ScalarType_Long, args = [], resTy = IntType\<rparr>,
                \<lparr>kind = ConstantIntOp rotaryInterleaved, args = [], resTy = IntType\<rparr>,
                \<lparr>kind = ConstantIntOp 0, args = [], resTy = IntType\<rparr>,
                \<lparr>kind = ConstantFloatOp 1, args = [], resTy = FloatType\<rparr>,
                \<lparr>kind = PrimListConstructOp, args = [cstBatchSize, cstSequenceLength], resTy = (ListType IntType)\<rparr>,
                \<lparr>kind = AtenZerosOp, args = [Res (n + 9) (ListType IntType), Res (n + 5) IntType, cstNone, cstNone, cstNone], resTy = (ValueTensorType (Some [batchSize, sequenceLength]) (Some (IntegerType 64 Signed)))\<rparr>,
                \<lparr>kind = AtenToDtypeOp, args = [operands ! 5, Res (n + 5) IntType, cstFalse, cstFalse, cstNone], resTy = (ValueTensorType None (Some (IntegerType 64 Signed)))\<rparr>,
                \<lparr>kind = AtenAddScalarOp, args = [Res (n + 11) (ValueTensorType None (Some (IntegerType 64 Signed))), Res (n + 1) IntType, Res (n + 1) IntType], resTy = (ValueTensorType None (Some (IntegerType 64 Signed)))\<rparr>,
                \<lparr>kind = AtenSubScalarOp, args = [Res (n + 12) (ValueTensorType None (Some (IntegerType 64 Signed))), cstSequenceLength, Res (n + 1) IntType], resTy = (ValueTensorType None (Some (IntegerType 64 Signed)))\<rparr>,
                \<lparr>kind = AtenArangeOp, args = [cstSequenceLength, Res (n + 5) IntType, cstNone, cstNone, cstNone], resTy = (ValueTensorType (Some [sequenceLength]) (Some (IntegerType 64 Signed)))\<rparr>,
                \<lparr>kind = PrimListConstructOp, args = [cstBatchSize, Res (n + 1) IntType], resTy = (ListType IntType)\<rparr>,
                \<lparr>kind = AtenRepeatOp, args = [Res (n + 14) (ValueTensorType (Some [sequenceLength]) (Some (IntegerType 64 Signed))), Res (n + 15) (ListType IntType)], resTy = (ValueTensorType (Some [batchSize, sequenceLength]) (Some (IntegerType 64 Signed)))\<rparr>,
                \<lparr>kind = ConstantIntOp 1, args = [], resTy = IntType\<rparr>,
                \<lparr>kind = PrimListConstructOp, args = [Res (n + 17) IntType, Res (n + 1) IntType], resTy = (ListType IntType)\<rparr>,
                \<lparr>kind = AtenViewOp, args = [Res (n + 13) (ValueTensorType None (Some (IntegerType 64 Signed))), Res (n + 18) (ListType IntType)], resTy = (ValueTensorType (Some [batchSize, 1]) (Some (IntegerType 64 Signed)))\<rparr>,
                \<lparr>kind = AtenAddTensorOp, args = [Res (n + 16) (ValueTensorType (Some [batchSize, sequenceLength]) (Some (IntegerType 64 Signed))), Res (n + 19) (ValueTensorType (Some [batchSize, 1]) (Some (IntegerType 64 Signed))), Res (n + 1) IntType], resTy = (ValueTensorType (Some [batchSize, sequenceLength]) (Some (IntegerType 64 Signed)))\<rparr>,
                \<lparr>kind = AtenViewOp, args = [Res (n + 12) (ValueTensorType None (Some (IntegerType 64 Signed))), Res (n + 18) (ListType IntType)], resTy = (ValueTensorType (Some [batchSize, 1]) (Some (IntegerType 64 Signed)))\<rparr>,
                \<lparr>kind = AtenLtTensorOp, args = [Res (n + 20) (ValueTensorType (Some [batchSize, sequenceLength]) (Some (IntegerType 64 Signed))), Res (n + 21) (ValueTensorType (Some [batchSize, 1]) (Some (IntegerType 64 Signed)))], resTy = (ValueTensorType (Some [batchSize, sequenceLength]) (Some (IntegerType 1 Signless)))\<rparr>,
                \<lparr>kind = PrimListConstructOp, args = [Res (n + 1) IntType], resTy = (ListType IntType)\<rparr>,
                \<lparr>kind = AtenTensorOp, args = [Res (n + 23) (ListType IntType), Res (n + 5) IntType, cstNone, cstFalse], resTy = (ValueTensorType None (Some (IntegerType 64 Signed)))\<rparr>,
                \<lparr>kind = AtenWhereSelfOp, args = [Res (n + 22) (ValueTensorType (Some [batchSize, sequenceLength]) (Some (IntegerType 1 Signless))), Res (n + 20) (ValueTensorType (Some [batchSize, sequenceLength]) (Some (IntegerType 64 Signed))), Res (n + 24) (ValueTensorType None (Some (IntegerType 64 Signed)))], resTy = (ValueTensorType (Some [batchSize, sequenceLength]) (Some (IntegerType 64 Signed)))\<rparr>,
                \<lparr>kind = AtenIntBoolOp, args = [Res (n + 4) BoolType], resTy = IntType\<rparr>,
                \<lparr>kind = ConstantIntOp ScalarType_Bool, args = [], resTy = IntType\<rparr>,
                \<lparr>kind = AtenFullOp, args = [Res (n + 9) (ListType IntType), Res (n + 26) IntType, Res (n + 27) IntType, cstNone, cstNone, cstNone], resTy = (ValueTensorType (Some [batchSize, sequenceLength]) (Some (IntegerType 1 Signless)))\<rparr>,
                \<lparr>kind = AtenWhereSelfOp, args = [Res (n + 28) (ValueTensorType (Some [batchSize, sequenceLength]) (Some (IntegerType 1 Signless))), Res (n + 25) (ValueTensorType (Some [batchSize, sequenceLength]) (Some (IntegerType 64 Signed))), Res (n + 10) (ValueTensorType (Some [batchSize, sequenceLength]) (Some (IntegerType 64 Signed)))], resTy = (ValueTensorType (Some [batchSize, sequenceLength]) (Some (IntegerType 64 Signed)))\<rparr>,
                \<lparr>kind = OnnxVariantRotaryEmbeddingOp, args = [qInput, Res (n + 29) (ValueTensorType (Some [batchSize, sequenceLength]) (Some (IntegerType 64 Signed))), operands ! 7, operands ! 8, Res (n + 6) IntType, Res (n + 7) IntType, Res (n + 7) IntType, Res (n + 7) IntType, Res (n + 8) FloatType], resTy = (getType qInput)\<rparr>,
                \<lparr>kind = OnnxVariantRotaryEmbeddingOp, args = [kInput, Res (n + 29) (ValueTensorType (Some [batchSize, sequenceLength]) (Some (IntegerType 64 Signed))), operands ! 7, operands ! 8, Res (n + 6) IntType, Res (n + 7) IntType, Res (n + 7) IntType, Res (n + 7) IntType, Res (n + 8) FloatType], resTy = (getType qInput)\<rparr>]\<rparr>)"
  unfolding gqaRotaryEmbedding_def Let_def
  using assms
  by (simp add: create_def)

text \<open>
  The rule on a record that passes every check, written out. The checks are the
  assumptions: the binder succeeds, the operand count fits \<^verbatim>\<open>do_rotary\<close>, the head counts
  are nonzero, the attributes outside the implemented subset have their defaults, the
  query has statically known sizes of rank at least three, and the cache operands and
  results have sizes. \<open>n\<close> is the index of the first operation the rule creates, \<open>a\<close> the
  index of the first operation after the rotary block.
\<close>

lemma GroupQueryAttention_run:
  assumes binds: "tensorOperandsList op = Some operands"
      "tensorResultTypes op = Some resultTypes" "length resultTypes = 3"
      "s64IntegerAttr op ''do_rotary'' 0 = Some doRotary"
      "s64IntegerAttr op ''kv_num_heads'' 0 = Some kvNumHeads"
      "s64IntegerAttr op ''local_window_size'' (- 1) = Some (- 1)"
      "s64IntegerAttr op ''num_heads'' 0 = Some numHeads"
      "s64IntegerAttr op ''rotary_interleaved'' 0 = Some rotaryInterleaved"
      "f32FloatAttr op ''scale'' 0 = Some scale"
      "s64IntegerAttr op ''smooth_softmax'' 0 = Some 0"
      "f32FloatAttr op ''softcap'' 0 = Some 0"
    and valid: "length operands = 9 \<or> (doRotary = 0 \<and> length operands = 7)"
      "kvNumHeads \<noteq> 0" "numHeads \<noteq> 0"
    and query: "getType (operands ! 0) =
                  ValueTensorType (Some (batchSize # sequenceLength # hiddenSize # rest)) qDtype"
      "list_all (\<lambda>d. d \<noteq> kUnknownSize) (batchSize # sequenceLength # hiddenSize # rest)"
    and cache: "getOptionalSizes (getType (operands ! 3)) = Some pastKeySizes"
      "getOptionalSizes (resultTypes ! 1) = Some presentKeySizes"
      "getOptionalSizes (getType (operands ! 4)) = Some pastValueSizes"
      "getOptionalSizes (resultTypes ! 2) = Some presentValueSizes"
    and n: "n = length (created rw)"
    and a: "a = n + 13 + (if doRotary \<noteq> 0 then 32 else 0)"
    and c: "c = (if scale \<noteq> 0 then 1 else 0)"
    and k: "k = (if pastKeySizes \<noteq> presentKeySizes then 3 else 0)"
    and qT: "qT = ValueTensorType
                   (Some [batchSize, numHeads, sequenceLength, hiddenSize sdiv numHeads]) qDtype"
    and qRotary: "qRotary = (if doRotary \<noteq> 0 then Res (n + 43) qT else Res (n + 7) qT)"
    and kRotary: "kRotary =
        (if doRotary \<noteq> 0 then Res (n + 44) qT
         else Res (n + 9) (ValueTensorType (Some [batchSize, kvNumHeads, sequenceLength, hiddenSize sdiv numHeads]) (getOptionalDtype (getType (operands ! 1)))))"
    and cstScale: "cstScale = (if scale \<noteq> 0 then Res (a + 2) FloatType else Res (n + 11) NoneType)"
  shows "GroupQueryAttention op rw =
     (Success,
      rw\<lparr>created := created rw @
           [\<lparr>kind = ConstantIntOp batchSize, args = [], resTy = IntType\<rparr>,
            \<lparr>kind = ConstantIntOp sequenceLength, args = [], resTy = IntType\<rparr>,
            \<lparr>kind = ConstantIntOp hiddenSize, args = [], resTy = IntType\<rparr>,
            \<lparr>kind = ConstantIntOp (hiddenSize sdiv numHeads), args = [], resTy = IntType\<rparr>,
            \<lparr>kind = ConstantIntOp numHeads, args = [], resTy = IntType\<rparr>,
            \<lparr>kind = ConstantIntOp kvNumHeads, args = [], resTy = IntType\<rparr>,
            \<lparr>kind = PrimListConstructOp, args = [Res n IntType, Res (n + 4) IntType, Res (n + 1) IntType, Res (n + 3) IntType], resTy = (ListType IntType)\<rparr>,
            \<lparr>kind = AtenReshapeOp, args = [operands ! 0, Res (n + 6) (ListType IntType)], resTy = (ValueTensorType (Some [batchSize, numHeads, sequenceLength, hiddenSize sdiv numHeads]) qDtype)\<rparr>,
            \<lparr>kind = PrimListConstructOp, args = [Res n IntType, Res (n + 5) IntType, Res (n + 1) IntType, Res (n + 3) IntType], resTy = (ListType IntType)\<rparr>,
            \<lparr>kind = AtenReshapeOp, args = [operands ! 1, Res (n + 8) (ListType IntType)], resTy = (ValueTensorType (Some [batchSize, kvNumHeads, sequenceLength, hiddenSize sdiv numHeads]) (getOptionalDtype (getType (operands ! 1))))\<rparr>,
            \<lparr>kind = AtenReshapeOp, args = [operands ! 2, Res (n + 8) (ListType IntType)], resTy = (ValueTensorType (Some [batchSize, kvNumHeads, sequenceLength, hiddenSize sdiv numHeads]) (getOptionalDtype (getType (operands ! 2))))\<rparr>,
            \<lparr>kind = ConstantNoneOp, args = [], resTy = NoneType\<rparr>,
            \<lparr>kind = ConstantBoolOp False, args = [], resTy = BoolType\<rparr>] @
           (if doRotary \<noteq> 0 then
           [\<lparr>kind = AtenItemOp, args = [operands ! 6], resTy = IntType\<rparr>,
            \<lparr>kind = ConstantIntOp 1, args = [], resTy = IntType\<rparr>,
            \<lparr>kind = AtenGtIntOp, args = [Res (n + 1) IntType, Res (n + 13 + 1) IntType], resTy = BoolType\<rparr>,
            \<lparr>kind = AtenNeIntOp, args = [Res (n + 1) IntType, Res (n + 13) IntType], resTy = BoolType\<rparr>,
            \<lparr>kind = Aten__And__BoolOp, args = [Res (n + 13 + 2) BoolType, Res (n + 13 + 3) BoolType], resTy = BoolType\<rparr>,
            \<lparr>kind = ConstantIntOp ScalarType_Long, args = [], resTy = IntType\<rparr>,
            \<lparr>kind = ConstantIntOp rotaryInterleaved, args = [], resTy = IntType\<rparr>,
            \<lparr>kind = ConstantIntOp 0, args = [], resTy = IntType\<rparr>,
            \<lparr>kind = ConstantFloatOp 1, args = [], resTy = FloatType\<rparr>,
            \<lparr>kind = PrimListConstructOp, args = [Res n IntType, Res (n + 1) IntType], resTy = (ListType IntType)\<rparr>,
            \<lparr>kind = AtenZerosOp, args = [Res (n + 13 + 9) (ListType IntType), Res (n + 13 + 5) IntType, Res (n + 11) NoneType, Res (n + 11) NoneType, Res (n + 11) NoneType], resTy = (ValueTensorType (Some [batchSize, sequenceLength]) (Some (IntegerType 64 Signed)))\<rparr>,
            \<lparr>kind = AtenToDtypeOp, args = [operands ! 5, Res (n + 13 + 5) IntType, Res (n + 12) BoolType, Res (n + 12) BoolType, Res (n + 11) NoneType], resTy = (ValueTensorType None (Some (IntegerType 64 Signed)))\<rparr>,
            \<lparr>kind = AtenAddScalarOp, args = [Res (n + 13 + 11) (ValueTensorType None (Some (IntegerType 64 Signed))), Res (n + 13 + 1) IntType, Res (n + 13 + 1) IntType], resTy = (ValueTensorType None (Some (IntegerType 64 Signed)))\<rparr>,
            \<lparr>kind = AtenSubScalarOp, args = [Res (n + 13 + 12) (ValueTensorType None (Some (IntegerType 64 Signed))), Res (n + 1) IntType, Res (n + 13 + 1) IntType], resTy = (ValueTensorType None (Some (IntegerType 64 Signed)))\<rparr>,
            \<lparr>kind = AtenArangeOp, args = [Res (n + 1) IntType, Res (n + 13 + 5) IntType, Res (n + 11) NoneType, Res (n + 11) NoneType, Res (n + 11) NoneType], resTy = (ValueTensorType (Some [sequenceLength]) (Some (IntegerType 64 Signed)))\<rparr>,
            \<lparr>kind = PrimListConstructOp, args = [Res n IntType, Res (n + 13 + 1) IntType], resTy = (ListType IntType)\<rparr>,
            \<lparr>kind = AtenRepeatOp, args = [Res (n + 13 + 14) (ValueTensorType (Some [sequenceLength]) (Some (IntegerType 64 Signed))), Res (n + 13 + 15) (ListType IntType)], resTy = (ValueTensorType (Some [batchSize, sequenceLength]) (Some (IntegerType 64 Signed)))\<rparr>,
            \<lparr>kind = ConstantIntOp 1, args = [], resTy = IntType\<rparr>,
            \<lparr>kind = PrimListConstructOp, args = [Res (n + 13 + 17) IntType, Res (n + 13 + 1) IntType], resTy = (ListType IntType)\<rparr>,
            \<lparr>kind = AtenViewOp, args = [Res (n + 13 + 13) (ValueTensorType None (Some (IntegerType 64 Signed))), Res (n + 13 + 18) (ListType IntType)], resTy = (ValueTensorType (Some [batchSize, 1]) (Some (IntegerType 64 Signed)))\<rparr>,
            \<lparr>kind = AtenAddTensorOp, args = [Res (n + 13 + 16) (ValueTensorType (Some [batchSize, sequenceLength]) (Some (IntegerType 64 Signed))), Res (n + 13 + 19) (ValueTensorType (Some [batchSize, 1]) (Some (IntegerType 64 Signed))), Res (n + 13 + 1) IntType], resTy = (ValueTensorType (Some [batchSize, sequenceLength]) (Some (IntegerType 64 Signed)))\<rparr>,
            \<lparr>kind = AtenViewOp, args = [Res (n + 13 + 12) (ValueTensorType None (Some (IntegerType 64 Signed))), Res (n + 13 + 18) (ListType IntType)], resTy = (ValueTensorType (Some [batchSize, 1]) (Some (IntegerType 64 Signed)))\<rparr>,
            \<lparr>kind = AtenLtTensorOp, args = [Res (n + 13 + 20) (ValueTensorType (Some [batchSize, sequenceLength]) (Some (IntegerType 64 Signed))), Res (n + 13 + 21) (ValueTensorType (Some [batchSize, 1]) (Some (IntegerType 64 Signed)))], resTy = (ValueTensorType (Some [batchSize, sequenceLength]) (Some (IntegerType 1 Signless)))\<rparr>,
            \<lparr>kind = PrimListConstructOp, args = [Res (n + 13 + 1) IntType], resTy = (ListType IntType)\<rparr>,
            \<lparr>kind = AtenTensorOp, args = [Res (n + 13 + 23) (ListType IntType), Res (n + 13 + 5) IntType, Res (n + 11) NoneType, Res (n + 12) BoolType], resTy = (ValueTensorType None (Some (IntegerType 64 Signed)))\<rparr>,
            \<lparr>kind = AtenWhereSelfOp, args = [Res (n + 13 + 22) (ValueTensorType (Some [batchSize, sequenceLength]) (Some (IntegerType 1 Signless))), Res (n + 13 + 20) (ValueTensorType (Some [batchSize, sequenceLength]) (Some (IntegerType 64 Signed))), Res (n + 13 + 24) (ValueTensorType None (Some (IntegerType 64 Signed)))], resTy = (ValueTensorType (Some [batchSize, sequenceLength]) (Some (IntegerType 64 Signed)))\<rparr>,
            \<lparr>kind = AtenIntBoolOp, args = [Res (n + 13 + 4) BoolType], resTy = IntType\<rparr>,
            \<lparr>kind = ConstantIntOp ScalarType_Bool, args = [], resTy = IntType\<rparr>,
            \<lparr>kind = AtenFullOp, args = [Res (n + 13 + 9) (ListType IntType), Res (n + 13 + 26) IntType, Res (n + 13 + 27) IntType, Res (n + 11) NoneType, Res (n + 11) NoneType, Res (n + 11) NoneType], resTy = (ValueTensorType (Some [batchSize, sequenceLength]) (Some (IntegerType 1 Signless)))\<rparr>,
            \<lparr>kind = AtenWhereSelfOp, args = [Res (n + 13 + 28) (ValueTensorType (Some [batchSize, sequenceLength]) (Some (IntegerType 1 Signless))), Res (n + 13 + 25) (ValueTensorType (Some [batchSize, sequenceLength]) (Some (IntegerType 64 Signed))), Res (n + 13 + 10) (ValueTensorType (Some [batchSize, sequenceLength]) (Some (IntegerType 64 Signed)))], resTy = (ValueTensorType (Some [batchSize, sequenceLength]) (Some (IntegerType 64 Signed)))\<rparr>,
            \<lparr>kind = OnnxVariantRotaryEmbeddingOp, args = [Res (n + 7) (ValueTensorType (Some [batchSize, numHeads, sequenceLength, hiddenSize sdiv numHeads]) qDtype), Res (n + 13 + 29) (ValueTensorType (Some [batchSize, sequenceLength]) (Some (IntegerType 64 Signed))), operands ! 7, operands ! 8, Res (n + 13 + 6) IntType, Res (n + 13 + 7) IntType, Res (n + 13 + 7) IntType, Res (n + 13 + 7) IntType, Res (n + 13 + 8) FloatType], resTy = (ValueTensorType (Some [batchSize, numHeads, sequenceLength, hiddenSize sdiv numHeads]) qDtype)\<rparr>,
            \<lparr>kind = OnnxVariantRotaryEmbeddingOp, args = [Res (n + 9) (ValueTensorType (Some [batchSize, kvNumHeads, sequenceLength, hiddenSize sdiv numHeads]) (getOptionalDtype (getType (operands ! 1)))), Res (n + 13 + 29) (ValueTensorType (Some [batchSize, sequenceLength]) (Some (IntegerType 64 Signed))), operands ! 7, operands ! 8, Res (n + 13 + 6) IntType, Res (n + 13 + 7) IntType, Res (n + 13 + 7) IntType, Res (n + 13 + 7) IntType, Res (n + 13 + 8) FloatType], resTy = (ValueTensorType (Some [batchSize, numHeads, sequenceLength, hiddenSize sdiv numHeads]) qDtype)\<rparr>]
            else []) @
           [\<lparr>kind = ConstantBoolOp True, args = [], resTy = BoolType\<rparr>,
            \<lparr>kind = ConstantFloatOp 0, args = [], resTy = FloatType\<rparr>] @
           (if scale \<noteq> 0
            then [\<lparr>kind = ConstantFloatOp scale, args = [], resTy = FloatType\<rparr>] else []) @
           [\<lparr>kind = AtenScaledDotProductAttentionOp,
             args = [qRotary, kRotary, Res (n + 10) (ValueTensorType (Some [batchSize, kvNumHeads, sequenceLength, hiddenSize sdiv numHeads]) (getOptionalDtype (getType (operands ! 2)))), Res (n + 11) NoneType,
                     Res (a + 1) FloatType, Res (n + 12) BoolType, cstScale, Res a BoolType],
             resTy = qT\<rparr>,
            \<lparr>kind = PrimListConstructOp,
             args = [Res n IntType, Res (n + 1) IntType, Res (n + 2) IntType],
             resTy = ListType IntType\<rparr>,
            \<lparr>kind = AtenReshapeOp,
             args = [Res (a + 2 + c) qT, Res (a + 3 + c) (ListType IntType)],
             resTy = resultTypes ! 0\<rparr>] @
           (if pastKeySizes \<noteq> presentKeySizes
            then [\<lparr>kind = ConstantIntOp 2, args = [], resTy = IntType\<rparr>,
                  \<lparr>kind = PrimListConstructOp, args = [operands ! 3, kRotary],
                   resTy = ListType (ValueTensorType None None)\<rparr>,
                  \<lparr>kind = AtenCatOp,
                   args = [Res (a + 6 + c) (ListType (ValueTensorType None None)),
                           Res (a + 5 + c) IntType],
                   resTy = resultTypes ! 1\<rparr>]
            else []) @
           (if pastValueSizes \<noteq> presentValueSizes
            then [\<lparr>kind = ConstantIntOp 2, args = [], resTy = IntType\<rparr>,
                  \<lparr>kind = PrimListConstructOp, args = [operands ! 4, Res (n + 10) (ValueTensorType (Some [batchSize, kvNumHeads, sequenceLength, hiddenSize sdiv numHeads]) (getOptionalDtype (getType (operands ! 2))))],
                   resTy = ListType (ValueTensorType None None)\<rparr>,
                  \<lparr>kind = AtenCatOp,
                   args = [Res (a + 6 + c + k) (ListType (ValueTensorType None None)),
                           Res (a + 5 + c + k) IntType],
                   resTy = resultTypes ! 2\<rparr>]
            else []),
         replacement :=
           Some [Res (a + 4 + c) (resultTypes ! 0),
                 (if pastKeySizes \<noteq> presentKeySizes
                  then Res (a + 7 + c) (resultTypes ! 1) else operands ! 3),
                 (if pastValueSizes \<noteq> presentValueSizes
                  then Res (a + 7 + c + k) (resultTypes ! 2) else operands ! 4)]\<rparr>)"
proof -
  note blk = gqaRotaryEmbedding_run [OF refl]
  show ?thesis
  proof (cases "doRotary = 0")
    case True
    then show ?thesis
      unfolding GroupQueryAttention_def gqaRewrite_def Let_def
      using assms
      by (cases "scale = 0"; cases "pastKeySizes = presentKeySizes";
          cases "pastValueSizes = presentValueSizes")
         (simp_all add: hasSizes_def areAllSizesKnown_def create_def
            notifyMatchFailure_def replaceOp_def)
  next
    case False
    then show ?thesis
      unfolding GroupQueryAttention_def gqaRewrite_def Let_def
      using assms
      by (cases "scale = 0"; cases "pastKeySizes = presentKeySizes";
          cases "pastValueSizes = presentValueSizes")
         (simp_all add: hasSizes_def areAllSizesKnown_def create_def
            notifyMatchFailure_def replaceOp_def blk)
  qed
qed

lemma sdiv_not_dvd: "\<not> (n::int) dvd h \<Longrightarrow> n * (h sdiv n) \<noteq> h"
  by (metis dvd_triv_left)

lemma sdiv_nonneg_pos: "0 \<le> (h::int) \<Longrightarrow> 0 < n \<Longrightarrow> h sdiv n = h div n"
  by (cases "h = 0") (simp_all add: signed_divide_int_def sgn_if)

text \<open>The binder on the example record.\<close>

lemma gqaExample_binds:
  "tensorOperandsList (gqaExample d b s h nh) = Some (opOperands (gqaExample d b s h nh))"
  "tensorResultTypes (gqaExample d b s h nh) = Some (opResultTypes (gqaExample d b s h nh))"
  "length (opResultTypes (gqaExample d b s h nh)) = 3"
  "s64IntegerAttr (gqaExample d b s h nh) ''do_rotary'' 0 = Some d"
  "s64IntegerAttr (gqaExample d b s h nh) ''kv_num_heads'' 0 = Some nh"
  "s64IntegerAttr (gqaExample d b s h nh) ''local_window_size'' (- 1) = Some (- 1)"
  "s64IntegerAttr (gqaExample d b s h nh) ''num_heads'' 0 = Some nh"
  "s64IntegerAttr (gqaExample d b s h nh) ''rotary_interleaved'' 0 = Some 0"
  "f32FloatAttr (gqaExample d b s h nh) ''scale'' 0 = Some 0"
  "s64IntegerAttr (gqaExample d b s h nh) ''smooth_softmax'' 0 = Some 0"
  "f32FloatAttr (gqaExample d b s h nh) ''softcap'' 0 = Some 0"
  "length (opOperands (gqaExample d b s h nh)) = 9 \<or>
   (d = 0 \<and> length (opOperands (gqaExample d b s h nh)) = 7)"
  "getType (opOperands (gqaExample d b s h nh) ! 0) =
     ValueTensorType (Some (b # s # h # [])) (Some F32Type)"
  "getOptionalSizes (getType (opOperands (gqaExample d b s h nh) ! 3)) =
     Some [b, nh, 0, h sdiv nh]"
  "getOptionalSizes (opResultTypes (gqaExample d b s h nh) ! 1) = Some [b, nh, s, h sdiv nh]"
  "getOptionalSizes (getType (opOperands (gqaExample d b s h nh) ! 4)) =
     Some [b, nh, 0, h sdiv nh]"
  "getOptionalSizes (opResultTypes (gqaExample d b s h nh) ! 2) = Some [b, nh, 0, h sdiv nh]"
  by (simp_all add: gqaExample_def tensorOperandsList_def tensorResultTypes_def
      isValueTensor_def f32Tensor_def si_def s64IntegerAttr_def f32FloatAttr_def)

text \<open>
  C10, as amended. A record that passes the checks (with ranked cache operands and
  results) and whose \<^verbatim>\<open>num_heads\<close> does not divide the hidden size is still rewritten:
  the head size is the quotient \<^verbatim>\<open>hiddenSize / numHeads\<close> truncated towards zero, the
  query is reshaped to \<open>(batch, num_heads, sequence_length, head_size)\<close>, and
  \<open>num_heads * head_size\<close> differs from the hidden size. No check of divisibility is made.
  The truncated quotient is the floor quotient when the hidden size is not negative and
  \<^verbatim>\<open>num_heads\<close> is positive.
\<close>

theorem GroupQueryAttention_head_size_truncated:
  assumes "tensorOperandsList op = Some operands"
      "tensorResultTypes op = Some resultTypes" "length resultTypes = 3"
      "s64IntegerAttr op ''do_rotary'' 0 = Some doRotary"
      "s64IntegerAttr op ''kv_num_heads'' 0 = Some kvNumHeads"
      "s64IntegerAttr op ''local_window_size'' (- 1) = Some (- 1)"
      "s64IntegerAttr op ''num_heads'' 0 = Some numHeads"
      "s64IntegerAttr op ''rotary_interleaved'' 0 = Some rotaryInterleaved"
      "f32FloatAttr op ''scale'' 0 = Some scale"
      "s64IntegerAttr op ''smooth_softmax'' 0 = Some 0"
      "f32FloatAttr op ''softcap'' 0 = Some 0"
    and "length operands = 9 \<or> (doRotary = 0 \<and> length operands = 7)"
      "kvNumHeads \<noteq> 0" "numHeads \<noteq> 0"
    and "getType (operands ! 0) =
           ValueTensorType (Some (batchSize # sequenceLength # hiddenSize # rest)) qDtype"
      "list_all (\<lambda>d. d \<noteq> kUnknownSize) (batchSize # sequenceLength # hiddenSize # rest)"
    and "getOptionalSizes (getType (operands ! 3)) = Some pastKeySizes"
      "getOptionalSizes (resultTypes ! 1) = Some presentKeySizes"
      "getOptionalSizes (getType (operands ! 4)) = Some pastValueSizes"
      "getOptionalSizes (resultTypes ! 2) = Some presentValueSizes"
    and "n = length (created rw)"
    and "\<not> numHeads dvd hiddenSize"
  shows "fst (GroupQueryAttention op rw) = Success \<and>
         created (snd (GroupQueryAttention op rw)) ! (n + 3) =
           \<lparr>kind = ConstantIntOp (hiddenSize sdiv numHeads), args = [], resTy = IntType\<rparr> \<and>
         created (snd (GroupQueryAttention op rw)) ! (n + 6) =
           \<lparr>kind = PrimListConstructOp,
            args = [Res n IntType, Res (n + 4) IntType, Res (n + 1) IntType,
                    Res (n + 3) IntType],
            resTy = ListType IntType\<rparr> \<and>
         created (snd (GroupQueryAttention op rw)) ! (n + 7) =
           \<lparr>kind = AtenReshapeOp, args = [operands ! 0, Res (n + 6) (ListType IntType)],
            resTy = ValueTensorType
                      (Some [batchSize, numHeads, sequenceLength, hiddenSize sdiv numHeads])
                      qDtype\<rparr> \<and>
         numHeads * (hiddenSize sdiv numHeads) \<noteq> hiddenSize \<and>
         (0 \<le> hiddenSize \<and> 0 < numHeads \<longrightarrow>
            hiddenSize sdiv numHeads = hiddenSize div numHeads)"
proof -
  note run = GroupQueryAttention_run [OF assms(1-21) refl refl refl refl refl refl refl]
  have "fst (GroupQueryAttention op rw) = Success"
    by (simp add: run)
  moreover have "created (snd (GroupQueryAttention op rw)) ! (n + 3) =
      \<lparr>kind = ConstantIntOp (hiddenSize sdiv numHeads), args = [], resTy = IntType\<rparr>"
    by (simp add: run assms(21) nth_append)
  moreover have "created (snd (GroupQueryAttention op rw)) ! (n + 6) =
           \<lparr>kind = PrimListConstructOp,
            args = [Res n IntType, Res (n + 4) IntType, Res (n + 1) IntType,
                    Res (n + 3) IntType],
            resTy = ListType IntType\<rparr>"
    by (simp add: run assms(21) nth_append)
  moreover have "created (snd (GroupQueryAttention op rw)) ! (n + 7) =
           \<lparr>kind = AtenReshapeOp, args = [operands ! 0, Res (n + 6) (ListType IntType)],
            resTy = ValueTensorType
                      (Some [batchSize, numHeads, sequenceLength, hiddenSize sdiv numHeads])
                      qDtype\<rparr>"
    by (simp add: run assms(21) nth_append)
  moreover have "numHeads * (hiddenSize sdiv numHeads) \<noteq> hiddenSize"
    using assms(22) by (rule sdiv_not_dvd)
  moreover have "0 \<le> hiddenSize \<and> 0 < numHeads \<longrightarrow>
            hiddenSize sdiv numHeads = hiddenSize div numHeads"
    by (simp add: sdiv_nonneg_pos)
  ultimately show ?thesis by blast
qed

text \<open>The theorem at a query of sizes \<open>1 \<times> 3 \<times> 5\<close> with two heads.\<close>

theorem GroupQueryAttention_head_size_truncated_witness:
  "fst (GroupQueryAttention (gqaExample 0 1 3 5 2) emptyRewriter) = Success \<and>
   created (snd (GroupQueryAttention (gqaExample 0 1 3 5 2) emptyRewriter)) ! 3 =
     \<lparr>kind = ConstantIntOp 2, args = [], resTy = IntType\<rparr> \<and>
   created (snd (GroupQueryAttention (gqaExample 0 1 3 5 2) emptyRewriter)) ! 7 =
     \<lparr>kind = AtenReshapeOp,
      args = [Arg 0 (f32Tensor [1, 3, 5]), Res 6 (ListType IntType)],
      resTy = f32Tensor [1, 2, 3, 2]\<rparr> \<and>
   (2::int) * 2 \<noteq> 5"
proof -
  have known: "list_all (\<lambda>d. d \<noteq> kUnknownSize) [1, 3, 5 :: int]"
    by (simp add: kUnknownSize_def)
  have n: "0 = length (created emptyRewriter)"
    by (simp add: emptyRewriter_def)
  have nd: "\<not> (2::int) dvd 5"
    by simp
  have two: "(2::int) \<noteq> 0"
    by simp
  note inst = GroupQueryAttention_head_size_truncated
    [OF gqaExample_binds(1-12) two two gqaExample_binds(13) known gqaExample_binds(14-17) n nd]
  then show ?thesis
    by (simp add: gqaExample_def f32Tensor_def)
qed

text \<open>
  The claim as stated fails for a negative \<^verbatim>\<open>num_heads\<close>, which the checks accept: with
  hidden size \<open>5\<close> and \<open>-2\<close> heads the head size is \<open>-2\<close>, while the floor quotient is \<open>-3\<close>.
\<close>

theorem GroupQueryAttention_head_size_counterexample:
  "fst (GroupQueryAttention (gqaExample 0 1 3 5 (- 2)) emptyRewriter) = Success \<and>
   created (snd (GroupQueryAttention (gqaExample 0 1 3 5 (- 2)) emptyRewriter)) ! 3 =
     \<lparr>kind = ConstantIntOp (- 2), args = [], resTy = IntType\<rparr> \<and>
   (5::int) div (- 2) = - 3"
proof -
  have known: "list_all (\<lambda>d. d \<noteq> kUnknownSize) [1, 3, 5 :: int]"
    by (simp add: kUnknownSize_def)
  have n: "0 = length (created emptyRewriter)"
    by (simp add: emptyRewriter_def)
  have two: "(- 2::int) \<noteq> 0"
    by simp
  note run = GroupQueryAttention_run
    [OF gqaExample_binds(1-12) two two gqaExample_binds(13) known gqaExample_binds(14-17) n
        refl refl refl refl refl refl refl]
  show ?thesis
    unfolding run
    by (simp add: emptyRewriter_def signed_divide_int_def)
qed

text \<open>
  C8. On a record that passes the checks, the present-key result is the past-key operand
  itself when the sizes of its declared type equal those of the past-key type, and
  otherwise an \<^verbatim>\<open>aten.cat\<close> of the past key and the new key (the key the attention reads:
  the reshaped key, rotary-embedded when \<^verbatim>\<open>do_rotary\<close> is set) along dimension 2, typed
  with the declared result type; likewise the present value with the past value and the
  reshaped value. The rule creates one concatenation for each of the two whose sizes
  differ, and none otherwise.
\<close>

theorem GroupQueryAttention_present_cache:
  assumes "tensorOperandsList op = Some operands"
      "tensorResultTypes op = Some resultTypes" "length resultTypes = 3"
      "s64IntegerAttr op ''do_rotary'' 0 = Some doRotary"
      "s64IntegerAttr op ''kv_num_heads'' 0 = Some kvNumHeads"
      "s64IntegerAttr op ''local_window_size'' (- 1) = Some (- 1)"
      "s64IntegerAttr op ''num_heads'' 0 = Some numHeads"
      "s64IntegerAttr op ''rotary_interleaved'' 0 = Some rotaryInterleaved"
      "f32FloatAttr op ''scale'' 0 = Some scale"
      "s64IntegerAttr op ''smooth_softmax'' 0 = Some 0"
      "f32FloatAttr op ''softcap'' 0 = Some 0"
    and "length operands = 9 \<or> (doRotary = 0 \<and> length operands = 7)"
      "kvNumHeads \<noteq> 0" "numHeads \<noteq> 0"
    and "getType (operands ! 0) =
           ValueTensorType (Some (batchSize # sequenceLength # hiddenSize # rest)) qDtype"
      "list_all (\<lambda>d. d \<noteq> kUnknownSize) (batchSize # sequenceLength # hiddenSize # rest)"
    and "getOptionalSizes (getType (operands ! 3)) = Some pastKeySizes"
      "getOptionalSizes (resultTypes ! 1) = Some presentKeySizes"
      "getOptionalSizes (getType (operands ! 4)) = Some pastValueSizes"
      "getOptionalSizes (resultTypes ! 2) = Some presentValueSizes"
    and "n = length (created rw)"
    and "rw' = snd (GroupQueryAttention op rw)"
    and "presentKey = the (replacement rw') ! 1"
    and "presentValue = the (replacement rw') ! 2"
    and "newKey = attentionOperands (drop n (created rw')) ! 1"
    and "newValue = attentionOperands (drop n (created rw')) ! 2"
  shows "fst (GroupQueryAttention op rw) = Success \<and>
         map_option length (replacement rw') = Some 3 \<and>
         (definingKind rw' newValue = Some AtenReshapeOp \<and>
          definingArg rw' newValue = Some (operands ! 2)) \<and>
         (if doRotary = 0
          then definingKind rw' newKey = Some AtenReshapeOp \<and>
               definingArg rw' newKey = Some (operands ! 1)
          else definingKind rw' newKey = Some OnnxVariantRotaryEmbeddingOp \<and>
               Option.bind (definingArg rw' newKey) (definingKind rw') = Some AtenReshapeOp \<and>
               Option.bind (definingArg rw' newKey) (definingArg rw') = Some (operands ! 1)) \<and>
         (if pastKeySizes = presentKeySizes
          then presentKey = operands ! 3
          else isCatOf rw' presentKey (operands ! 3) newKey 2 \<and>
               getType presentKey = resultTypes ! 1) \<and>
         (if pastValueSizes = presentValueSizes
          then presentValue = operands ! 4
          else isCatOf rw' presentValue (operands ! 4) newValue 2 \<and>
               getType presentValue = resultTypes ! 2) \<and>
         length (filter (\<lambda>x. kind x = AtenCatOp) (drop n (created rw'))) =
           (if pastKeySizes = presentKeySizes then 0 else 1) +
           (if pastValueSizes = presentValueSizes then 0 else 1)"
proof -
  note run = GroupQueryAttention_run [OF assms(1-21) refl refl refl refl refl refl refl]
  show ?thesis
    unfolding assms(22-26) run
    using assms(21)
    by (cases "doRotary = 0"; cases "scale = 0"; cases "pastKeySizes = presentKeySizes";
        cases "pastValueSizes = presentValueSizes")
       (simp_all add: attentionOperands_def definingKind_def definingArg_def definingOp_def
          isCatOf_def nth_append)
qed

text \<open>
  The theorem at a record with an empty cache whose present-key result grows by the
  sequence (sizes differ) and whose present-value result is declared with the sizes of the
  past value.
\<close>

theorem GroupQueryAttention_present_cache_witness:
  "fst (GroupQueryAttention (gqaExample 0 1 3 8 2) emptyRewriter) = Success \<and>
   isCatOf (snd (GroupQueryAttention (gqaExample 0 1 3 8 2) emptyRewriter))
     (the (replacement (snd (GroupQueryAttention (gqaExample 0 1 3 8 2) emptyRewriter))) ! 1)
     (Arg 3 (f32Tensor [1, 2, 0, 4]))
     (attentionOperands
        (created (snd (GroupQueryAttention (gqaExample 0 1 3 8 2) emptyRewriter))) ! 1)
     2 \<and>
   the (replacement (snd (GroupQueryAttention (gqaExample 0 1 3 8 2) emptyRewriter))) ! 2 =
     Arg 4 (f32Tensor [1, 2, 0, 4]) \<and>
   length (filter (\<lambda>x. kind x = AtenCatOp)
             (created (snd (GroupQueryAttention (gqaExample 0 1 3 8 2) emptyRewriter)))) = 1"
proof -
  have known: "list_all (\<lambda>d. d \<noteq> kUnknownSize) [1, 3, 8 :: int]"
    by (simp add: kUnknownSize_def)
  have n: "0 = length (created emptyRewriter)"
    by (simp add: emptyRewriter_def)
  have two: "(2::int) \<noteq> 0"
    by simp
  note inst = GroupQueryAttention_present_cache
    [OF gqaExample_binds(1-12) two two gqaExample_binds(13) known gqaExample_binds(14-17) n
        refl refl refl refl refl]
  then show ?thesis
    by (simp add: gqaExample_def f32Tensor_def)
qed

section \<open>The position indices of GroupQueryAttention\<close>

text \<open>Selecting under a condition that is false everywhere yields the other tensor.\<close>

lemma broadcastRev_same: "broadcastRev xs xs = Some xs"
  by (induction xs) simp_all

lemma broadcastShapes_same: "broadcastShapes sh sh = Some sh"
  by (simp add: broadcastShapes_def broadcastRev_same)

lemma select_all_false:
  "length xs = n \<Longrightarrow>
   map (\<lambda>(cv, xv, yv). if cv \<noteq> 0 then xv else yv)
     (zip (replicate n (0::int)) (zip xs (replicate n (y::int)))) = replicate n y"
  by (rule nth_equalityI) simp_all

lemma whereSelf_all_false:
  assumes "tshape x = sh" and "wellFormed x"
  shows "whereSelf (full sh 0) x (full sh y) = Some (full sh y)"
  using assms
  by (simp add: whereSelf_def full_def broadcastShapes_same broadcastTo_def wellFormed_def
      select_all_false)

text \<open>
  With \<^verbatim>\<open>do_rotary\<close> set, both rotary embeddings read the same position indices, the
  value of index \<open>n + 42\<close>: a select between \<^verbatim>\<open>positionIdsB\<close> (index \<open>n + 38\<close>) and
  \<^verbatim>\<open>positionIdsA\<close> (index \<open>n + 23\<close>) under the broadcast predicate (index \<open>n + 41\<close>, filled
  with the integer of the predicate of index \<open>n + 17\<close>).
\<close>

lemma GroupQueryAttention_rotary_graph:
  assumes "tensorOperandsList op = Some operands"
      "tensorResultTypes op = Some resultTypes" "length resultTypes = 3"
      "s64IntegerAttr op ''do_rotary'' 0 = Some doRotary"
      "s64IntegerAttr op ''kv_num_heads'' 0 = Some kvNumHeads"
      "s64IntegerAttr op ''local_window_size'' (- 1) = Some (- 1)"
      "s64IntegerAttr op ''num_heads'' 0 = Some numHeads"
      "s64IntegerAttr op ''rotary_interleaved'' 0 = Some rotaryInterleaved"
      "f32FloatAttr op ''scale'' 0 = Some scale"
      "s64IntegerAttr op ''smooth_softmax'' 0 = Some 0"
      "f32FloatAttr op ''softcap'' 0 = Some 0"
    and "length operands = 9 \<or> (doRotary = 0 \<and> length operands = 7)"
      "kvNumHeads \<noteq> 0" "numHeads \<noteq> 0"
    and "getType (operands ! 0) =
           ValueTensorType (Some (batchSize # sequenceLength # hiddenSize # rest)) qDtype"
      "list_all (\<lambda>d. d \<noteq> kUnknownSize) (batchSize # sequenceLength # hiddenSize # rest)"
    and "getOptionalSizes (getType (operands ! 3)) = Some pastKeySizes"
      "getOptionalSizes (resultTypes ! 1) = Some presentKeySizes"
      "getOptionalSizes (getType (operands ! 4)) = Some pastValueSizes"
      "getOptionalSizes (resultTypes ! 2) = Some presentValueSizes"
    and "n = length (created rw)"
    and "doRotary \<noteq> 0"
    and "0 \<le> batchSize" "0 \<le> sequenceLength"
    and "operands ! 6 = Arg i t6" "inp i = Some (RTensor totalSequenceLength)"
      "tdata totalSequenceLength = [sequenceLength]"
    and "ops = created (snd (GroupQueryAttention op rw))"
    and "posT = ValueTensorType (Some [batchSize, sequenceLength])
                  (Some (IntegerType 64 Signed))"
    and "boolT = ValueTensorType (Some [batchSize, sequenceLength])
                   (Some (IntegerType 1 Signless))"
  shows "rotaryPositionIds (drop n ops) = [Res (n + 42) posT, Res (n + 42) posT]"
    and "ops ! (n + 42) =
           \<lparr>kind = AtenWhereSelfOp,
            args = [Res (n + 41) boolT, Res (n + 38) posT, Res (n + 23) posT],
            resTy = posT\<rparr>"
    and "ops ! (n + 41) =
           \<lparr>kind = AtenFullOp,
            args = [Res (n + 22) (ListType IntType), Res (n + 39) IntType,
                    Res (n + 40) IntType, Res (n + 11) NoneType, Res (n + 11) NoneType,
                    Res (n + 11) NoneType],
            resTy = boolT\<rparr>"
    and "ops ! (n + 39) =
           \<lparr>kind = AtenIntBoolOp, args = [Res (n + 17) BoolType], resTy = IntType\<rparr>"
proof -
  note run = GroupQueryAttention_run [OF assms(1-21) refl refl refl refl refl refl refl]
  show "rotaryPositionIds (drop n ops) = [Res (n + 42) posT, Res (n + 42) posT]"
    unfolding assms(28-30) run using assms(21,22)
    by (cases "scale = 0"; cases "pastKeySizes = presentKeySizes";
        cases "pastValueSizes = presentValueSizes")
       (simp_all add: rotaryPositionIds_def)
  show "ops ! (n + 42) =
           \<lparr>kind = AtenWhereSelfOp,
            args = [Res (n + 41) boolT, Res (n + 38) posT, Res (n + 23) posT],
            resTy = posT\<rparr>"
    unfolding assms(28-30) run using assms(21,22) by (simp add: nth_append)
  show "ops ! (n + 41) =
           \<lparr>kind = AtenFullOp,
            args = [Res (n + 22) (ListType IntType), Res (n + 39) IntType,
                    Res (n + 40) IntType, Res (n + 11) NoneType, Res (n + 11) NoneType,
                    Res (n + 11) NoneType],
            resTy = boolT\<rparr>"
    unfolding assms(28-30) run using assms(21,22) by (simp add: nth_append)
  show "ops ! (n + 39) =
           \<lparr>kind = AtenIntBoolOp, args = [Res (n + 17) BoolType], resTy = IntType\<rparr>"
    unfolding assms(28-30) run using assms(21,22) by (simp add: nth_append)
qed

text \<open>
  When the total sequence length equals the sequence length, the predicate is false, its
  broadcast is zero everywhere, \<^verbatim>\<open>positionIdsA\<close> is the zero tensor, and so is the select
  wherever \<^verbatim>\<open>positionIdsB\<close> has a value of the shape of the positions.
\<close>

lemma GroupQueryAttention_first_prompt:
  assumes "tensorOperandsList op = Some operands"
      "tensorResultTypes op = Some resultTypes" "length resultTypes = 3"
      "s64IntegerAttr op ''do_rotary'' 0 = Some doRotary"
      "s64IntegerAttr op ''kv_num_heads'' 0 = Some kvNumHeads"
      "s64IntegerAttr op ''local_window_size'' (- 1) = Some (- 1)"
      "s64IntegerAttr op ''num_heads'' 0 = Some numHeads"
      "s64IntegerAttr op ''rotary_interleaved'' 0 = Some rotaryInterleaved"
      "f32FloatAttr op ''scale'' 0 = Some scale"
      "s64IntegerAttr op ''smooth_softmax'' 0 = Some 0"
      "f32FloatAttr op ''softcap'' 0 = Some 0"
    and "length operands = 9 \<or> (doRotary = 0 \<and> length operands = 7)"
      "kvNumHeads \<noteq> 0" "numHeads \<noteq> 0"
    and "getType (operands ! 0) =
           ValueTensorType (Some (batchSize # sequenceLength # hiddenSize # rest)) qDtype"
      "list_all (\<lambda>d. d \<noteq> kUnknownSize) (batchSize # sequenceLength # hiddenSize # rest)"
    and "getOptionalSizes (getType (operands ! 3)) = Some pastKeySizes"
      "getOptionalSizes (resultTypes ! 1) = Some presentKeySizes"
      "getOptionalSizes (getType (operands ! 4)) = Some pastValueSizes"
      "getOptionalSizes (resultTypes ! 2) = Some presentValueSizes"
    and "n = length (created rw)"
    and "doRotary \<noteq> 0"
    and "0 \<le> batchSize" "0 \<le> sequenceLength"
    and "operands ! 6 = Arg i t6" "inp i = Some (RTensor totalSequenceLength)"
      "tdata totalSequenceLength = [sequenceLength]"
    and "ops = created (snd (GroupQueryAttention op rw))"
    and "posT = ValueTensorType (Some [batchSize, sequenceLength])
                  (Some (IntegerType 64 Signed))"
    and "boolT = ValueTensorType (Some [batchSize, sequenceLength])
                   (Some (IntegerType 1 Signless))"
  shows "evalValue ops inp (Res (n + 17) BoolType) = Some (RBool False)"
    and "evalValue ops inp (Res (n + 41) boolT) =
           Some (RTensor (full [nat batchSize, nat sequenceLength] 0))"
    and "evalValue ops inp (Res (n + 23) posT) =
           Some (RTensor (full [nat batchSize, nat sequenceLength] 0))"
    and "\<And>positionIdsB.
           evalValue ops inp (Res (n + 38) posT) = Some (RTensor positionIdsB) \<Longrightarrow>
           tshape positionIdsB = [nat batchSize, nat sequenceLength] \<Longrightarrow>
           wellFormed positionIdsB \<Longrightarrow>
           evalValue ops inp (Res (n + 42) posT) =
             Some (RTensor (full [nat batchSize, nat sequenceLength] 0))"
proof -
  note run = GroupQueryAttention_run [OF assms(1-21) refl refl refl refl refl refl refl]
  show p: "evalValue ops inp (Res (n + 17) BoolType) = Some (RBool False)"
    unfolding assms(28-30) run using assms(21,22,25-27)
    by (simp add: nth_append precedes_def evalOp_def)
  show c: "evalValue ops inp (Res (n + 41) boolT) =
           Some (RTensor (full [nat batchSize, nat sequenceLength] 0))"
    unfolding assms(28-30) run using assms(21-27)
    by (simp add: nth_append precedes_def evalOp_def sizeList_def)
  show z: "evalValue ops inp (Res (n + 23) posT) =
           Some (RTensor (full [nat batchSize, nat sequenceLength] 0))"
    unfolding assms(28-30) run using assms(21-24)
    by (simp add: nth_append precedes_def evalOp_def sizeList_def)
  fix positionIdsB
  assume b: "evalValue ops inp (Res (n + 38) posT) = Some (RTensor positionIdsB)"
    and sh: "tshape positionIdsB = [nat batchSize, nat sequenceLength]"
    and wf: "wellFormed positionIdsB"
  have len: "n + 42 < length ops"
    unfolding assms(28-30) run using assms(21,22) by simp
  have w: "ops ! (n + 42) =
           \<lparr>kind = AtenWhereSelfOp,
            args = [Res (n + 41) boolT, Res (n + 38) posT, Res (n + 23) posT],
            resTy = posT\<rparr>"
    unfolding assms(28-30) run using assms(21,22) by (simp add: nth_append)
  show "evalValue ops inp (Res (n + 42) posT) =
          Some (RTensor (full [nat batchSize, nat sequenceLength] 0))"
    using len w b c z whereSelf_all_false [OF sh wf, of 0]
    by (simp add: precedes_def evalOp_def)
qed

text \<open>
  C3, as amended. In the GroupQueryAttention rewrite with \<^verbatim>\<open>do_rotary\<close> enabled, when the
  run-time total sequence length equals the sequence length, the continuation predicate
  (\<open>sequence_length > 1\<close> and \<open>sequence_length \<noteq> total\<close>) is false, and the position
  indices passed to both rotary embeddings are the select, under that predicate broadcast
  to the shape of the positions, of \<^verbatim>\<open>positionIdsA\<close>: the tensor of zeros of shape
  \<open>(batch, sequence_length)\<close> that \<^verbatim>\<open>aten.zeros\<close> creates, not the indices
  \<open>0, ..., sequence_length - 1\<close>. The select has this value wherever its other branch,
  \<^verbatim>\<open>positionIdsB\<close>, has a value of that shape.
\<close>

theorem GroupQueryAttention_first_prompt_positions:
  assumes "tensorOperandsList op = Some operands"
      "tensorResultTypes op = Some resultTypes" "length resultTypes = 3"
      "s64IntegerAttr op ''do_rotary'' 0 = Some doRotary"
      "s64IntegerAttr op ''kv_num_heads'' 0 = Some kvNumHeads"
      "s64IntegerAttr op ''local_window_size'' (- 1) = Some (- 1)"
      "s64IntegerAttr op ''num_heads'' 0 = Some numHeads"
      "s64IntegerAttr op ''rotary_interleaved'' 0 = Some rotaryInterleaved"
      "f32FloatAttr op ''scale'' 0 = Some scale"
      "s64IntegerAttr op ''smooth_softmax'' 0 = Some 0"
      "f32FloatAttr op ''softcap'' 0 = Some 0"
    and "length operands = 9 \<or> (doRotary = 0 \<and> length operands = 7)"
      "kvNumHeads \<noteq> 0" "numHeads \<noteq> 0"
    and "getType (operands ! 0) =
           ValueTensorType (Some (batchSize # sequenceLength # hiddenSize # rest)) qDtype"
      "list_all (\<lambda>d. d \<noteq> kUnknownSize) (batchSize # sequenceLength # hiddenSize # rest)"
    and "getOptionalSizes (getType (operands ! 3)) = Some pastKeySizes"
      "getOptionalSizes (resultTypes ! 1) = Some presentKeySizes"
      "getOptionalSizes (getType (operands ! 4)) = Some pastValueSizes"
      "getOptionalSizes (resultTypes ! 2) = Some presentValueSizes"
    and "n = length (created rw)"
    and "doRotary \<noteq> 0"
    and "0 \<le> batchSize" "0 \<le> sequenceLength"
    and "operands ! 6 = Arg i t6" "inp i = Some (RTensor totalSequenceLength)"
      "tdata totalSequenceLength = [sequenceLength]"
    and "ops = created (snd (GroupQueryAttention op rw))"
    and "posT = ValueTensorType (Some [batchSize, sequenceLength])
                  (Some (IntegerType 64 Signed))"
    and "boolT = ValueTensorType (Some [batchSize, sequenceLength])
                   (Some (IntegerType 1 Signless))"
  shows "rotaryPositionIds (drop n ops) = [Res (n + 42) posT, Res (n + 42) posT] \<and>
         ops ! (n + 42) =
           \<lparr>kind = AtenWhereSelfOp,
            args = [Res (n + 41) boolT, Res (n + 38) posT, Res (n + 23) posT],
            resTy = posT\<rparr> \<and>
         ops ! (n + 41) =
           \<lparr>kind = AtenFullOp,
            args = [Res (n + 22) (ListType IntType), Res (n + 39) IntType,
                    Res (n + 40) IntType, Res (n + 11) NoneType, Res (n + 11) NoneType,
                    Res (n + 11) NoneType],
            resTy = boolT\<rparr> \<and>
         ops ! (n + 39) =
           \<lparr>kind = AtenIntBoolOp, args = [Res (n + 17) BoolType], resTy = IntType\<rparr> \<and>
         evalValue ops inp (Res (n + 17) BoolType) = Some (RBool False) \<and>
         evalValue ops inp (Res (n + 41) boolT) =
           Some (RTensor (full [nat batchSize, nat sequenceLength] 0)) \<and>
         evalValue ops inp (Res (n + 23) posT) =
           Some (RTensor (full [nat batchSize, nat sequenceLength] 0)) \<and>
         (\<forall>positionIdsB.
            evalValue ops inp (Res (n + 38) posT) = Some (RTensor positionIdsB) \<and>
            tshape positionIdsB = [nat batchSize, nat sequenceLength] \<and>
            wellFormed positionIdsB \<longrightarrow>
            evalValue ops inp (Res (n + 42) posT) =
              Some (RTensor (full [nat batchSize, nat sequenceLength] 0)))"
  using GroupQueryAttention_rotary_graph [where inp = inp and i = i, OF assms]
    GroupQueryAttention_first_prompt [where inp = inp and i = i, OF assms]
  by blast

text \<open>Evaluation on the example records.\<close>

lemma upt_small:
  "[0..<1] = [0]" "[0..<2] = [0, 1]" "[0..<3] = [0, 1, 2]"
  "replicate 1 x = [x]" "replicate 2 x = [x, x]" "replicate 3 x = [x, x, x]"
  by (simp_all add: eval_nat_numeral)

lemmas evalDefs = nth_append precedes_def evalOp_def sizeList_def view_def binop_def
  broadcastShapes_def broadcastTo_def repeat_def whereSelf_def numel_def full_def
  ScalarType_Long_def ScalarType_Bool_def gqaInputs_def gqaExample_def si_def f32Tensor_def
  emptyRewriter_def wellFormed_def Let_def upt_small

lemma gqaExample_first_prompt_B:
  "evalValue (created (snd (GroupQueryAttention (gqaExample 1 1 2 8 2) emptyRewriter)))
     (gqaInputs [1] 2)
     (Res 38 (ValueTensorType (Some [1, 2]) (Some (IntegerType 64 Signed)))) =
   Some (RTensor \<lparr>tshape = [1, 2], tdata = [0, 1]\<rparr>)"
proof -
  have known: "list_all (\<lambda>d. d \<noteq> kUnknownSize) [1, 2, 8 :: int]"
    by (simp add: kUnknownSize_def)
  have n: "0 = length (created emptyRewriter)"
    by (simp add: emptyRewriter_def)
  have two: "(2::int) \<noteq> 0"
    by simp
  note run = GroupQueryAttention_run
    [OF gqaExample_binds(1-12) two two gqaExample_binds(13) known gqaExample_binds(14-17) n
        refl refl refl refl refl refl refl]
  show ?thesis
    unfolding run
    by (simp add: evalDefs)
qed

text \<open>
  The theorem at batch size one, sequence length two and a total sequence length of two.
\<close>

theorem GroupQueryAttention_first_prompt_positions_witness:
  "rotaryPositionIds
     (created (snd (GroupQueryAttention (gqaExample 1 1 2 8 2) emptyRewriter))) =
     [Res 42 (ValueTensorType (Some [1, 2]) (Some (IntegerType 64 Signed))),
      Res 42 (ValueTensorType (Some [1, 2]) (Some (IntegerType 64 Signed)))] \<and>
   evalValue (created (snd (GroupQueryAttention (gqaExample 1 1 2 8 2) emptyRewriter)))
     (gqaInputs [1] 2) (Res 17 BoolType) = Some (RBool False) \<and>
   evalValue (created (snd (GroupQueryAttention (gqaExample 1 1 2 8 2) emptyRewriter)))
     (gqaInputs [1] 2)
     (Res 42 (ValueTensorType (Some [1, 2]) (Some (IntegerType 64 Signed)))) =
     Some (RTensor (full [1, 2] 0))"
proof -
  have known: "list_all (\<lambda>d. d \<noteq> kUnknownSize) [1, 2, 8 :: int]"
    by (simp add: kUnknownSize_def)
  have n: "0 = length (created emptyRewriter)"
    by (simp add: emptyRewriter_def)
  have two: "(2::int) \<noteq> 0" and one: "(1::int) \<noteq> 0" and pos: "(0::int) \<le> 1" "(0::int) \<le> 2"
    by simp_all
  have six: "opOperands (gqaExample 1 1 2 8 2) ! 6 = Arg 6 (si 32 [])"
    by (simp add: gqaExample_def)
  have inp: "gqaInputs [1] 2 6 = Some (RTensor \<lparr>tshape = [], tdata = [2]\<rparr>)"
    by (simp add: gqaInputs_def)
  have tot: "tdata \<lparr>tshape = [], tdata = [2 :: int]\<rparr> = [2]"
    by simp
  note inst = GroupQueryAttention_first_prompt_positions
    [where inp = "gqaInputs [1] 2" and i = 6,
     OF gqaExample_binds(1-12) two two gqaExample_binds(13) known gqaExample_binds(14-17) n
        one pos six inp tot refl refl refl]
  have wf: "tshape \<lparr>tshape = [1, 2], tdata = [0, 1 :: int]\<rparr> = [nat 1, nat 2] \<and>
            wellFormed \<lparr>tshape = [1, 2], tdata = [0, 1]\<rparr>"
    by (simp add: wellFormed_def numel_def)
  from inst gqaExample_first_prompt_B wf show ?thesis
    by simp
qed

text \<open>
  The claim as stated fails there: the position indices are \<open>[[0, 0]]\<close>, not the prompt
  indices \<open>[[0, 1]]\<close>.
\<close>

theorem GroupQueryAttention_first_prompt_counterexample:
  "rotaryPositionIds
     (created (snd (GroupQueryAttention (gqaExample 1 1 2 8 2) emptyRewriter))) =
     [Res 42 (ValueTensorType (Some [1, 2]) (Some (IntegerType 64 Signed))),
      Res 42 (ValueTensorType (Some [1, 2]) (Some (IntegerType 64 Signed)))] \<and>
   gqaInputs [1] 2 6 = Some (RTensor \<lparr>tshape = [], tdata = [2]\<rparr>) \<and>
   evalValue (created (snd (GroupQueryAttention (gqaExample 1 1 2 8 2) emptyRewriter)))
     (gqaInputs [1] 2)
     (Res 42 (ValueTensorType (Some [1, 2]) (Some (IntegerType 64 Signed)))) =
     Some (RTensor \<lparr>tshape = [1, 2], tdata = [0, 0]\<rparr>) \<and>
   \<lparr>tshape = [1, 2], tdata = [0, 0]\<rparr> \<noteq> \<lparr>tshape = [1, 2], tdata = [0, 1 :: int]\<rparr>"
proof -
  have known: "list_all (\<lambda>d. d \<noteq> kUnknownSize) [1, 2, 8 :: int]"
    by (simp add: kUnknownSize_def)
  have n: "0 = length (created emptyRewriter)"
    by (simp add: emptyRewriter_def)
  have two: "(2::int) \<noteq> 0"
    by simp
  note run = GroupQueryAttention_run
    [OF gqaExample_binds(1-12) two two gqaExample_binds(13) known gqaExample_binds(14-17) n
        refl refl refl refl refl refl refl]
  show ?thesis
    unfolding run
    by (simp add: evalDefs rotaryPositionIds_def)
qed

text \<open>
  C4 at batch size two (sequence length three, \<^verbatim>\<open>seqlens_k = [5, 7]\<close>, total eight). The
  constant named \<^verbatim>\<open>cstIntMinusOne\<close> holds \<open>1\<close>, so the size list of the view of the past
  lengths is \<open>[1, 1]\<close> where the source's comment has \<^verbatim>\<open>view(-1, 1)\<close>. The past lengths
  \<open>[3, 5]\<close> have two elements, the view has no value, and neither have the position
  indices: the past length is not added per batch row.
\<close>

theorem GroupQueryAttention_continuation_view_two_rows:
  "created (snd (GroupQueryAttention (gqaExample 1 2 3 8 2) emptyRewriter)) ! 30 =
     \<lparr>kind = ConstantIntOp 1, args = [], resTy = IntType\<rparr> \<and>
   created (snd (GroupQueryAttention (gqaExample 1 2 3 8 2) emptyRewriter)) ! 31 =
     \<lparr>kind = PrimListConstructOp, args = [Res 30 IntType, Res 14 IntType],
      resTy = ListType IntType\<rparr> \<and>
   created (snd (GroupQueryAttention (gqaExample 1 2 3 8 2) emptyRewriter)) ! 32 =
     \<lparr>kind = AtenViewOp,
      args = [Res 26 (ValueTensorType None (Some (IntegerType 64 Signed))),
              Res 31 (ListType IntType)],
      resTy = ValueTensorType (Some [2, 1]) (Some (IntegerType 64 Signed))\<rparr> \<and>
   evalValue (created (snd (GroupQueryAttention (gqaExample 1 2 3 8 2) emptyRewriter)))
     (gqaInputs [5, 7] 8)
     (Res 26 (ValueTensorType None (Some (IntegerType 64 Signed)))) =
     Some (RTensor \<lparr>tshape = [2], tdata = [3, 5]\<rparr>) \<and>
   evalValue (created (snd (GroupQueryAttention (gqaExample 1 2 3 8 2) emptyRewriter)))
     (gqaInputs [5, 7] 8) (Res 31 (ListType IntType)) = Some (RList [RInt 1, RInt 1]) \<and>
   evalValue (created (snd (GroupQueryAttention (gqaExample 1 2 3 8 2) emptyRewriter)))
     (gqaInputs [5, 7] 8)
     (Res 32 (ValueTensorType (Some [2, 1]) (Some (IntegerType 64 Signed)))) = None \<and>
   evalValue (created (snd (GroupQueryAttention (gqaExample 1 2 3 8 2) emptyRewriter)))
     (gqaInputs [5, 7] 8)
     (Res 42 (ValueTensorType (Some [2, 3]) (Some (IntegerType 64 Signed)))) = None"
proof -
  have known: "list_all (\<lambda>d. d \<noteq> kUnknownSize) [2, 3, 8 :: int]"
    by (simp add: kUnknownSize_def)
  have n: "0 = length (created emptyRewriter)"
    by (simp add: emptyRewriter_def)
  have two: "(2::int) \<noteq> 0"
    by simp
  note run = GroupQueryAttention_run
    [OF gqaExample_binds(1-12) two two gqaExample_binds(13) known gqaExample_binds(14-17) n
        refl refl refl refl refl refl refl]
  show ?thesis
    unfolding run
    by (simp add: evalDefs)
qed

text \<open>
  With a single batch row the size list \<open>[1, 1]\<close> fits, and the continuation indices are
  the past length \<open>(5 + 1) - 3 = 3\<close> added to \<open>0, 1, 2\<close>.
\<close>

lemma GroupQueryAttention_continuation_single_row:
  "evalValue (created (snd (GroupQueryAttention (gqaExample 1 1 3 8 2) emptyRewriter)))
     (gqaInputs [5] 6)
     (Res 42 (ValueTensorType (Some [1, 3]) (Some (IntegerType 64 Signed)))) =
     Some (RTensor \<lparr>tshape = [1, 3], tdata = [3, 4, 5]\<rparr>)"
proof -
  have known: "list_all (\<lambda>d. d \<noteq> kUnknownSize) [1, 3, 8 :: int]"
    by (simp add: kUnknownSize_def)
  have n: "0 = length (created emptyRewriter)"
    by (simp add: emptyRewriter_def)
  have two: "(2::int) \<noteq> 0"
    by simp
  note run = GroupQueryAttention_run
    [OF gqaExample_binds(1-12) two two gqaExample_binds(13) known gqaExample_binds(14-17) n
        refl refl refl refl refl refl refl]
  show ?thesis
    unfolding run
    by (simp add: evalDefs)
qed

section \<open>Rules that decline\<close>


lemma extends_trans: "extends a b \<Longrightarrow> extends b c \<Longrightarrow> extends a c"
  by (auto simp: extends_def)

lemma extends_create: "extends rw (snd (create k vs t rw))"
  by (simp add: extends_def create_def)

lemma call_eq:
  "call h rw = (fst (h (length (created rw))), rw\<lparr>created := created rw @ snd (h (length (created rw)))\<rparr>)"
  by (simp add: call_def split_def)

lemma extends_call: "extends rw (snd (call h rw))"
  by (simp add: extends_def call_eq)




























section \<open>The operand counts\<close>

text \<open>
  The rules of fixed arity decline, with the rewriter unchanged, on every record with
  another number of operands.
\<close>

lemma fixed_arity_rules_decline:
  "length (opOperands op) \<noteq> 8 \<Longrightarrow> \<exists>r. QLinearAdd u op rw = (Failure r, rw)"
  "length (opOperands op) \<noteq> 8 \<Longrightarrow> \<exists>r. QLinearMul u op rw = (Failure r, rw)"
  "length (opOperands op) \<noteq> 5 \<Longrightarrow> \<exists>r. QLinearLeakyRelu u op rw = (Failure r, rw)"
  "length (opOperands op) \<noteq> 5 \<Longrightarrow> \<exists>r. QLinearSigmoid u op rw = (Failure r, rw)"
  "length (opOperands op) \<noteq> 5 \<Longrightarrow> \<exists>r. QLinearAveragePool u op rw = (Failure r, rw)"
  "length (opOperands op) \<noteq> 5 \<Longrightarrow> \<exists>r. QLinearGlobalAveragePool u op rw = (Failure r, rw)"
  "length (opOperands op) \<noteq> 9 \<Longrightarrow>
   \<not> (s64IntegerAttr op ''do_rotary'' 0 = Some 0 \<and> length (opOperands op) = 7) \<Longrightarrow>
   \<exists>r. GroupQueryAttention op rw = (Failure r, rw)"
  by (auto simp: QLinearAdd_def QLinearMul_def QLinearLeakyRelu_def QLinearSigmoid_def
        QLinearAveragePool_def QLinearGlobalAveragePool_def GroupQueryAttention_def
        tensorOperandsList_def tensorOperands_def notifyMatchFailure_def failure_def
      split: option.splits if_splits)

text \<open>
  C2, at a QLinearConcat record with three operands: the loop that collects the inputs
  reads \<^verbatim>\<open>operands[3]\<close> and \<^verbatim>\<open>operands[4]\<close> past the end of the operand list before the
  count is checked, whatever the helpers and the rewriter.
\<close>

theorem QLinearConcat_three_operands_reads_past_end:
  "QLinearConcat u concatThreeOperands rw = (Crash, rw)"
  by (simp add: QLinearConcat_def concatThreeOperands_def ui8_def f32Tensor_def
      tensorOperandsList_def tensorResultType_def isValueTensor_def s64IntegerAttr_def)

section \<open>Properties of the finalizing pass\<close>

lemma substValue_Nil: "substValue [] v = v"
  by (cases v) simp_all

lemma map_substValue_Nil: "map (substValue []) vs = vs"
  by (induction vs) (simp_all add: substValue_Nil)

text \<open>A conversion of legal operations changes nothing.\<close>

lemma legalize_all_legal:
  "\<forall>x\<in>set ops. isLegal target x \<Longrightarrow>
   legalize target patterns [] converted ops = Some (converted @ ops)"
  by (induction ops arbitrary: converted) (simp_all add: map_substValue_Nil)




lemma greedyRewrite_no_truncf:
  "\<forall>x\<in>set ops. irName x \<noteq> TruncFOp \<Longrightarrow> greedyRewrite [] visited ops = visited @ ops"
  by (induction ops arbitrary: visited) (simp_all add: map_substValue_Nil)

text \<open>The loop of \<^verbatim>\<open>stripTorchAttrs\<close> is a filter.\<close>

lemma stripTorchAttrsLoop_eq:
  "stripTorchAttrsLoop attrs modified newAttrs =
     (modified \<or> (\<exists>a\<in>set attrs. starts_with (fst a) ''torch.''),
      newAttrs @ filter (\<lambda>a. \<not> starts_with (fst a) ''torch.'') attrs)"
  by (induction attrs arbitrary: modified newAttrs) auto

lemma stripTorchAttrs_eq:
  "stripTorchAttrs func =
     func\<lparr>funcDialectAttrs :=
            filter (\<lambda>a. \<not> starts_with (fst a) ''torch.'') (funcDialectAttrs func)\<rparr>"
proof (cases "\<exists>a\<in>set (funcDialectAttrs func). starts_with (fst a) ''torch.''")
  case True
  then show ?thesis
    by (simp add: stripTorchAttrs_def stripTorchAttrsLoop_eq)
next
  case False
  then have "filter (\<lambda>a. \<not> starts_with (fst a) ''torch.'') (funcDialectAttrs func) =
             funcDialectAttrs func"
    by (simp add: filter_id_conv)
  with False show ?thesis
    by (simp add: stripTorchAttrs_def stripTorchAttrsLoop_eq)
qed


lemma finalizingSetup_illegal:
  "irName op \<in> set materializationOps \<Longrightarrow> \<not> isLegal (fst (finalizingSetup backend)) op"
  by (auto simp: finalizingSetup_def Let_def split_def materializationOps_def
        addIllegalOp_def markUnknownOpDynamicallyLegal_def isLegal_def)


lemma pass_failed:
  "fst (FinalizingBackendTypeConversionPass backend func) =
     (legalize (fst (finalizingSetup backend)) (snd (finalizingSetup backend)) [] []
        (funcBody func) = None)"
  by (simp add: FinalizingBackendTypeConversionPass_def Let_def split_def
      applyFullConversion_def applyPatternsGreedily_def split: option.splits)

lemma pass_body:
  "legalize (fst (finalizingSetup backend)) (snd (finalizingSetup backend)) [] []
     (funcBody func) = Some out \<Longrightarrow>
   snd (FinalizingBackendTypeConversionPass backend func) =
     \<lparr>funcDialectAttrs =
        filter (\<lambda>a. \<not> starts_with (fst a) ''torch.'') (funcDialectAttrs func),
      funcBody = greedyRewrite [] [] out\<rparr>"
  by (simp add: FinalizingBackendTypeConversionPass_def Let_def split_def
      applyFullConversion_def applyPatternsGreedily_def stripTorchAttrs_eq)

text \<open>The pass on the example functions.\<close>

lemma strandedFunc_run:
  "fst (FinalizingBackendTypeConversionPass specBackendTypeConversion strandedFunc)"
  by (simp add: pass_failed finalizingSetup_def specBackendTypeConversion_def
      materializationOps_def strandedFunc_def f32Tensor_def addConversion_def
      addIllegalOp_def markUnknownOpDynamicallyLegal_def isLegal_def isLegalOp_def
      isLegalType_def FinalizeMaterialization_def Let_def)


lemma extfTruncfFunc_run:
  "FinalizingBackendTypeConversionPass specBackendTypeConversion extfTruncfFunc =
     (False,
      \<lparr>funcDialectAttrs = [(''llvm.emit_c_interface'', OtherAttr ''unit'')],
       funcBody =
         [\<lparr>irId = 0, irName = ExtFOp,
           irOperands = [Arg 0 (OtherType ''f32'')], irType = OtherType ''f64''\<rparr>,
          \<lparr>irId = 2, irName = NamedOp ''arith.negf'',
           irOperands = [Arg 0 (OtherType ''f32'')], irType = OtherType ''f32''\<rparr>]\<rparr>)"
  by (simp add: FinalizingBackendTypeConversionPass_def applyFullConversion_def
      applyPatternsGreedily_def stripTorchAttrs_def starts_with_def
      finalizingSetup_def specBackendTypeConversion_def
      materializationOps_def extfTruncfFunc_def addConversion_def
      addIllegalOp_def markUnknownOpDynamicallyLegal_def isLegal_def isLegalOp_def
      isLegalType_def ExtFTruncFPattern_def getDefiningOp_def Let_def)

lemma torchOpFunc_run:
  "fst (FinalizingBackendTypeConversionPass specBackendTypeConversion torchOpFunc)"
  by (simp add: pass_failed finalizingSetup_def specBackendTypeConversion_def
      materializationOps_def torchOpFunc_def f32Tensor_def addConversion_def
      addIllegalOp_def markUnknownOpDynamicallyLegal_def isLegal_def isLegalOp_def
      isLegalType_def Let_def)



text \<open>
  C7, as amended. On a function whose operations are all legal for the target of the
  pass, which therefore has no bridging operation, the pass succeeds. It drops the
  dialect attributes of the function whose name starts with \<^verbatim>\<open>torch.\<close> and keeps the
  others in their order. The body is the result of the cleanup on the original body, and
  it is the original body when the function has no \<^verbatim>\<open>arith.truncf\<close>.
\<close>

theorem finalizing_pass_on_legal_function:
  assumes "\<forall>x\<in>set (funcBody func). isLegal (fst (finalizingSetup backend)) x"
  shows "\<not> fst (FinalizingBackendTypeConversionPass backend func) \<and>
         (\<forall>x\<in>set (funcBody func). irName x \<notin> set materializationOps) \<and>
         funcDialectAttrs (snd (FinalizingBackendTypeConversionPass backend func)) =
           filter (\<lambda>a. \<not> starts_with (fst a) ''torch.'') (funcDialectAttrs func) \<and>
         funcBody (snd (FinalizingBackendTypeConversionPass backend func)) =
           greedyRewrite [] [] (funcBody func) \<and>
         ((\<forall>x\<in>set (funcBody func). irName x \<noteq> TruncFOp)
          \<longrightarrow> funcBody (snd (FinalizingBackendTypeConversionPass backend func)) =
              funcBody func)"
proof -
  have out: "legalize (fst (finalizingSetup backend)) (snd (finalizingSetup backend)) [] []
               (funcBody func) = Some (funcBody func)"
    using legalize_all_legal [OF assms, of "snd (finalizingSetup backend)" "[]"] by simp
  have "\<forall>x\<in>set (funcBody func). irName x \<notin> set materializationOps"
    using assms finalizingSetup_illegal [of _ backend] by blast
  moreover have "(\<forall>x\<in>set (funcBody func). irName x \<noteq> TruncFOp)
     \<longrightarrow> greedyRewrite [] [] (funcBody func) = funcBody func"
    using greedyRewrite_no_truncf [of "funcBody func" "[]"] by simp
  ultimately show ?thesis
    by (simp add: pass_failed pass_body [OF out] out)
qed

text \<open>The theorem at a function with one legal operation and two attributes.\<close>

theorem finalizing_pass_on_legal_function_witness:
  "FinalizingBackendTypeConversionPass specBackendTypeConversion negfFunc =
     (False,
      \<lparr>funcDialectAttrs = [(''llvm.emit_c_interface'', OtherAttr ''unit'')],
       funcBody = funcBody negfFunc\<rparr>)"
proof -
  have legal: "\<forall>x\<in>set (funcBody negfFunc).
                 isLegal (fst (finalizingSetup specBackendTypeConversion)) x"
    by (simp add: finalizingSetup_def specBackendTypeConversion_def
      materializationOps_def negfFunc_def addConversion_def
      addIllegalOp_def markUnknownOpDynamicallyLegal_def isLegal_def isLegalOp_def
      isLegalType_def Let_def)
  have notrunc: "\<forall>x\<in>set (funcBody negfFunc). irName x \<noteq> TruncFOp"
    by (simp add: negfFunc_def)
  have attrs: "filter (\<lambda>a. \<not> starts_with (fst a) ''torch.'') (funcDialectAttrs negfFunc) =
                 [(''llvm.emit_c_interface'', OtherAttr ''unit'')]"
    by (simp add: negfFunc_def starts_with_def)
  note inst = finalizing_pass_on_legal_function [OF legal]
  from inst notrunc attrs show ?thesis
    by (cases "FinalizingBackendTypeConversionPass specBackendTypeConversion negfFunc";
        cases "snd (FinalizingBackendTypeConversionPass specBackendTypeConversion negfFunc)")
       simp
qed

text \<open>
  The claim as stated fails. A function without bridging operation that widens a value
  and narrows it back is rewritten by the cleanup: the use of the narrowed value becomes
  a use of the original value. And on a function without bridging operation that still
  has a Torch operation the pass fails.
\<close>

theorem finalizing_pass_counterexample:
  "list_all (\<lambda>x. irName x \<notin> set materializationOps) (funcBody extfTruncfFunc) \<and>
   \<not> fst (FinalizingBackendTypeConversionPass specBackendTypeConversion extfTruncfFunc) \<and>
   funcBody (snd (FinalizingBackendTypeConversionPass specBackendTypeConversion
                    extfTruncfFunc)) =
     [\<lparr>irId = 0, irName = ExtFOp,
       irOperands = [Arg 0 (OtherType ''f32'')], irType = OtherType ''f64''\<rparr>,
      \<lparr>irId = 2, irName = NamedOp ''arith.negf'',
       irOperands = [Arg 0 (OtherType ''f32'')], irType = OtherType ''f32''\<rparr>] \<and>
   funcBody (snd (FinalizingBackendTypeConversionPass specBackendTypeConversion
                    extfTruncfFunc)) \<noteq> funcBody extfTruncfFunc \<and>
   list_all (\<lambda>x. irName x \<notin> set materializationOps) (funcBody torchOpFunc) \<and>
   fst (FinalizingBackendTypeConversionPass specBackendTypeConversion torchOpFunc)"
  by (simp add: extfTruncfFunc_run torchOpFunc_run)
     (simp add: extfTruncfFunc_def torchOpFunc_def materializationOps_def)

end
